theory Spec2Isabelle
  imports Complex_Main "HOL-Library.Multiset" "HOL-Library.Product_Lexorder"
begin

section \<open>WZ-Risk API: the scoring and ranking core of \<open>app.py\<close>\<close>

text \<open>
  The development embeds the risk model of \<open>app.py\<close>: the configuration read from the
  environment, \<open>calc_score\<close>, the endpoints \<open>/score\<close>, \<open>/score/batch\<close> and
  \<open>/cve/check\<close>.

  Conventions of the embedding.
  \<^item> A Python \<open>float\<close> is a \<open>real\<close>: arithmetic is exact, so binary rounding is outside
    the model, and so are the values \<open>inf\<close> and \<open>nan\<close> as inputs or settings. The one place
    where a float that is not finite raises, \<open>int(...)\<close> in \<open>calc_score\<close>, is modelled by the
    bound at which the product overflows.
  \<^item> A Python \<open>str\<close> is a \<open>string\<close>; a character outside ASCII is written as the bytes of
    its UTF-8 encoding.
  \<^item> A \<open>datetime\<close> is its wall-clock reading in microseconds since the epoch together with
    its UTC offset, \<open>None\<close> when the datetime is naive.
  \<^item> The clock (\<open>datetime.now(timezone.utc)\<close>) is a parameter: the instant, in microseconds
    since the epoch, that the call reads.
  \<^item> An exception is a value \<open>Inl e\<close> of a sum type.
\<close>

subsection \<open>Enumerations\<close>

datatype Crit = baixa | media | alta | critica

datatype Exposure = internet | interna | isolada

text \<open>The \<open>.value\<close> of a member, the string the enumeration is declared with.\<close>

fun Crit_value :: "Crit \<Rightarrow> string" where
  "Crit_value baixa = ''baixa''"
| "Crit_value media = ''media''"
| "Crit_value alta = ''alta''"
| "Crit_value critica = ''critica''"

fun Exposure_value :: "Exposure \<Rightarrow> string" where
  "Exposure_value internet = ''internet''"
| "Exposure_value interna = ''interna''"
| "Exposure_value isolada = ''isolada''"

datatype py_error = ValueError | TypeError | KeyError | ValidationError | OverflowError

text \<open>The call \<open>Crit(val)\<close>: the member with that value, \<open>ValueError\<close> when there is none.\<close>

definition Crit_of :: "string \<Rightarrow> py_error + Crit" where
  "Crit_of val =
     (if val = ''baixa'' then Inr baixa
      else if val = ''media'' then Inr media
      else if val = ''alta'' then Inr alta
      else if val = ''critica'' then Inr critica
      else Inl ValueError)"

definition Exposure_of :: "string \<Rightarrow> py_error + Exposure" where
  "Exposure_of val =
     (if val = ''internet'' then Inr internet
      else if val = ''interna'' then Inr interna
      else if val = ''isolada'' then Inr isolada
      else Inl ValueError)"

subsection \<open>Configuration from the environment\<close>

text \<open>
  The environment is a map from names to strings. \<open>float(s)\<close> is Python's own parser and is
  a parameter \<open>py_float\<close> of the model: \<open>Inr v\<close> when the string parses, \<open>Inl ValueError\<close>
  otherwise. With the variable unset, \<open>os.getenv(name, default)\<close> is the default itself and
  \<open>float\<close> of a float returns it.
\<close>

type_synonym environ = "string \<rightharpoonup> string"

definition env_float ::
  "(string \<Rightarrow> py_error + real) \<Rightarrow> environ \<Rightarrow> string \<Rightarrow> real \<Rightarrow> real" where
  "env_float py_float env name dflt =
     (case env name of
        None \<Rightarrow> dflt
      | Some s \<Rightarrow> (case py_float s of Inr v \<Rightarrow> v | Inl _ \<Rightarrow> dflt))"

definition env_enum ::
  "environ \<Rightarrow> string \<Rightarrow> (string \<Rightarrow> py_error + 'e) \<Rightarrow> 'e \<Rightarrow> 'e" where
  "env_enum env name enum_cls dflt =
     (case env name of
        None \<Rightarrow> dflt
      | Some val \<Rightarrow> (case enum_cls val of Inr m \<Rightarrow> m | Inl _ \<Rightarrow> dflt))"

record config =
  W_CVSS :: real
  W_CRIT :: real
  W_EXPO :: real
  W_RECENCY :: real
  B_EXPLOIT :: real
  B_ACTIVE :: real
  DEFAULT_CRIT :: Crit
  DEFAULT_EXPO :: Exposure

text \<open>The module-level assignments, run once when the module is imported.\<close>

definition load_config :: "(string \<Rightarrow> py_error + real) \<Rightarrow> environ \<Rightarrow> config" where
  "load_config py_float env =
     \<lparr> W_CVSS = env_float py_float env ''WZ_W_CVSS'' 0.50,
       W_CRIT = env_float py_float env ''WZ_W_CRIT'' 0.20,
       W_EXPO = env_float py_float env ''WZ_W_EXPO'' 0.15,
       W_RECENCY = env_float py_float env ''WZ_W_RECENCY'' 0.10,
       B_EXPLOIT = env_float py_float env ''WZ_B_EXPLOIT'' 0.15,
       B_ACTIVE = env_float py_float env ''WZ_B_ACTIVE'' 0.25,
       DEFAULT_CRIT = env_enum env ''WZ_DEFAULT_CRIT'' Crit_of media,
       DEFAULT_EXPO = env_enum env ''WZ_DEFAULT_EXPO'' Exposure_of interna \<rparr>"

text \<open>The configuration of a process started with no override.\<close>

definition default_config :: config where
  "default_config =
     \<lparr> W_CVSS = 0.50, W_CRIT = 0.20, W_EXPO = 0.15, W_RECENCY = 0.10,
       B_EXPLOIT = 0.15, B_ACTIVE = 0.25, DEFAULT_CRIT = media, DEFAULT_EXPO = interna \<rparr>"

subsection \<open>Schemas\<close>

record datetime =
  wall :: int
  utcoffset :: "int option"

text \<open>The validator \<open>force_tz\<close> (and \<open>force_tz2\<close>, the same body): a naive datetime becomes UTC.\<close>

definition force_tz :: "datetime \<Rightarrow> datetime" where
  "force_tz v = (if utcoffset v = None then v\<lparr>utcoffset := Some 0\<rparr> else v)"

record FindingIn =
  id_f :: string
  product :: "string option"
  host :: "string option"
  agent :: "string option"
  cvss :: real
  published :: datetime
  summary :: "string option"
  asset_criticality :: "Crit option"
  has_known_exploit :: bool
  is_actively_exploited :: bool
  exposure :: "Exposure option"
  years :: "real option"

record FindingOut = FindingIn +
  risk_score :: real
  risk_level :: string
  explanation :: string
  work_order :: "int option"

record CVECheckIn =
  c_id :: string
  c_cvss :: real
  c_published :: datetime
  c_summary :: "string option"
  c_product :: "string option"
  c_host :: "string option"
  c_agent :: "string option"
  c_has_known_exploit :: bool
  c_is_actively_exploited :: bool
  c_asset_criticality :: "Crit option"
  c_exposure :: "Exposure option"
  c_years :: "real option"

text \<open>
  The field \<open>id\<close> is \<open>id_f\<close> here and the fields of \<open>CVECheckIn\<close> carry the prefix \<open>c_\<close>.
  What pydantic has established of every instance of \<open>FindingIn\<close> and of \<open>CVECheckIn\<close>: the
  field constraint \<open>ge=0, le=10\<close> and the validator of \<open>published\<close>.
\<close>

definition FindingIn_valid :: "FindingIn \<Rightarrow> bool" where
  "FindingIn_valid f \<longleftrightarrow> 0 \<le> cvss f \<and> cvss f \<le> 10 \<and> utcoffset (published f) \<noteq> None"

definition CVECheckIn_valid :: "CVECheckIn \<Rightarrow> bool" where
  "CVECheckIn_valid c \<longleftrightarrow>
     0 \<le> c_cvss c \<and> c_cvss c \<le> 10 \<and> utcoffset (c_published c) \<noteq> None"

subsection \<open>Risk model\<close>

fun CRIT_WEIGHTS :: "Crit \<Rightarrow> real" where
  "CRIT_WEIGHTS baixa = 0.2"
| "CRIT_WEIGHTS media = 0.5"
| "CRIT_WEIGHTS alta = 0.8"
| "CRIT_WEIGHTS critica = 1.0"

fun EXPO_WEIGHTS :: "Exposure \<Rightarrow> real" where
  "EXPO_WEIGHTS isolada = 0.2"
| "EXPO_WEIGHTS interna = 0.6"
| "EXPO_WEIGHTS internet = 1.0"

definition clamp :: "real \<Rightarrow> real \<Rightarrow> real \<Rightarrow> real" where
  "clamp x lo hi = max lo (min hi x)"

text \<open>\<open>clamp(x)\<close> with the default bounds \<open>lo=0.0\<close>, \<open>hi=1.0\<close>.\<close>

definition clamp01 :: "real \<Rightarrow> real" where
  "clamp01 x = clamp x 0 1"

text \<open>
  \<open>years_since\<close>: \<open>now\<close> is aware (UTC), so the subtraction raises \<open>TypeError\<close> on a naive
  \<open>pub\<close>. \<open>delta.days\<close> is the floor of the difference in days, negative differences
  included.
\<close>

definition years_since :: "int \<Rightarrow> datetime \<Rightarrow> py_error + real" where
  "years_since now pub =
     (case utcoffset pub of
        None \<Rightarrow> Inl TypeError
      | Some off \<Rightarrow>
          (let delta = now - (wall pub - off);
               days = delta div 86400000000
           in Inr (real_of_int days / 365.25)))"

subsection \<open>Number formatting\<close>

text \<open>\<open>str\<close> of a non-negative integer and of an integer.\<close>

definition digit_char :: "nat \<Rightarrow> char" where
  "digit_char d =
     (if d = 0 then CHR ''0'' else if d = 1 then CHR ''1'' else if d = 2 then CHR ''2''
      else if d = 3 then CHR ''3'' else if d = 4 then CHR ''4'' else if d = 5 then CHR ''5''
      else if d = 6 then CHR ''6'' else if d = 7 then CHR ''7'' else if d = 8 then CHR ''8''
      else CHR ''9'')"

fun str_nat :: "nat \<Rightarrow> string" where
  "str_nat n =
     (if n < 10 then [digit_char n] else str_nat (n div 10) @ [digit_char (n mod 10)])"

declare str_nat.simps [simp del]

definition str_int :: "int \<Rightarrow> string" where
  "str_int i = (if i < 0 then ''-'' @ str_nat (nat (- i)) else str_nat (nat i))"

text \<open>
  The bound from which a product of two floats is no longer finite: a result of magnitude
  \<open>2 ^ 1024 - 2 ^ 970\<close> or more rounds to an infinity.
\<close>

definition float_overflow :: real where
  "float_overflow = 2 ^ 1024 - 2 ^ 970"

text \<open>
  \<open>int(x)\<close> of a float product \<open>x\<close>: truncation towards zero, and \<open>OverflowError\<close> when the
  product is infinite. The digits are those of the exact product; the product of the two
  floats can differ from it in the last place.
\<close>

definition py_int :: "real \<Rightarrow> py_error + int" where
  "py_int x =
     (if float_overflow \<le> \<bar>x\<bar> then Inl OverflowError
      else Inr (if 0 \<le> x then \<lfloor>x\<rfloor> else \<lceil>x\<rceil>))"

text \<open>Rounding to the nearest integer, a tie to the even one, as \<open>round\<close> and \<open>format\<close> do.\<close>

definition round_half_even :: "real \<Rightarrow> int" where
  "round_half_even x =
     (let f = \<lfloor>x\<rfloor>; d = x - of_int f
      in if d < 1 / 2 then f else if 1 / 2 < d then f + 1 else if even f then f else f + 1)"

text \<open>\<open>round(s, 2)\<close>.\<close>

definition round2 :: "real \<Rightarrow> real" where
  "round2 s = real_of_int (round_half_even (s * 100)) / 100"

text \<open>
  \<open>format(x, '.<nd>f')\<close>: sign, integer part, point, \<open>nd\<close> digits. The digits are those
  of the exact value, rounded half to even; Python formats the binary float, whose last
  digit can differ at a decimal tie (\<open>0.35\<close> prints as \<open>0.3\<close>).
\<close>

definition fmt_f :: "nat \<Rightarrow> real \<Rightarrow> string" where
  "fmt_f nd x =
     (let n = nat (round_half_even (\<bar>x\<bar> * 10 ^ nd));
          frac = str_nat (n mod 10 ^ nd)
      in (if x < 0 then ''-'' else []) @ str_nat (n div 10 ^ nd) @ ''.''
           @ replicate (nd - length frac) (CHR ''0'') @ frac)"

text \<open>\<open>sep.join(parts)\<close>.\<close>

fun join :: "string \<Rightarrow> string list \<Rightarrow> string" where
  "join sep [] = []"
| "join sep [p] = p"
| "join sep (p # q # ps) = p @ sep @ join sep (q # ps)"

subsection \<open>The score calculator\<close>

text \<open>The local \<open>yrs\<close> of \<open>calc_score\<close>; only the derived age reads the clock.\<close>

definition calc_yrs :: "int \<Rightarrow> FindingIn \<Rightarrow> py_error + real" where
  "calc_yrs now data =
     (case years data of
        None \<Rightarrow> years_since now (published data)
      | Some y \<Rightarrow> Inr (max 0 y))"

definition calc_recency_factor :: "real \<Rightarrow> real" where
  "calc_recency_factor yrs = clamp01 (1 - clamp01 (yrs / 10))"

definition calc_recency_msg :: "real \<Rightarrow> string" where
  "calc_recency_msg yrs =
     (if yrs \<le> 1 then
        ''A vulnerabilidade '' @ [CHR 0xC3, CHR 0xA9] @ '' muito recente (~''
          @ fmt_f 2 yrs @ '' ano).''
      else if yrs \<le> 3 then
        ''Publicada h'' @ [CHR 0xC3, CHR 0xA1] @ '' '' @ fmt_f 2 yrs @ '' anos (ainda recente).''
      else if yrs \<le> 10 then
        ''Publicada h'' @ [CHR 0xC3, CHR 0xA1] @ '' '' @ fmt_f 2 yrs
          @ '' anos (perde peso com a idade).''
      else
        ''Antiga (~'' @ fmt_f 2 yrs @ '' anos), impacto por rec'' @ [CHR 0xC3, CHR 0xAA]
          @ ''ncia '' @ [CHR 0xC3, CHR 0xA9] @ '' baixo.'')"

text \<open>The local \<open>base\<close>, after both bonuses.\<close>

definition calc_base :: "config \<Rightarrow> FindingIn \<Rightarrow> real \<Rightarrow> real \<Rightarrow> real \<Rightarrow> real \<Rightarrow> real" where
  "calc_base cfg data cvss_n crit_w expo_w recency_factor =
     (let base = W_CVSS cfg * cvss_n + W_CRIT cfg * crit_w + W_EXPO cfg * expo_w
                   + W_RECENCY cfg * recency_factor;
          base = (if has_known_exploit data then base + B_EXPLOIT cfg else base);
          base = (if is_actively_exploited data then base + B_ACTIVE cfg else base)
      in base)"

definition calc_level :: "real \<Rightarrow> string" where
  "calc_level score =
     (if score \<ge> 90 then ''CRITICAL''
      else if score \<ge> 70 then ''HIGH''
      else if score \<ge> 40 then ''MEDIUM''
      else ''LOW'')"

text \<open>
  The sentences of the explanation. \<open>int(B_EXPLOIT*100)\<close> and \<open>int(B_ACTIVE*100)\<close> are
  evaluated only when the flag is set, the first before the second, and either can raise:
  the exception leaves \<open>calc_score\<close>.
\<close>

definition calc_expl ::
  "config \<Rightarrow> FindingIn \<Rightarrow> Crit \<Rightarrow> Exposure \<Rightarrow> real \<Rightarrow> real \<Rightarrow> string \<Rightarrow> real \<Rightarrow> string
     \<Rightarrow> py_error + string list" where
  "calc_expl cfg data asset_crit expo crit_w expo_w recency_msg score level =
     (let expl =
            [''CVSS informado: '' @ fmt_f 1 (cvss data) @ '' (peso '' @ fmt_f 2 (W_CVSS cfg)
               @ '').'']
            @ [''Criticidade do ativo: '' @ Crit_value asset_crit @ '' (fator ''
                 @ fmt_f 2 crit_w @ '', peso '' @ fmt_f 2 (W_CRIT cfg) @ '').'']
            @ [''Exposi'' @ [CHR 0xC3, CHR 0xA7, CHR 0xC3, CHR 0xA3] @ ''o: ''
                 @ Exposure_value expo @ '' (fator '' @ fmt_f 2 expo_w @ '', peso ''
                 @ fmt_f 2 (W_EXPO cfg) @ '').'']
            @ [''Rec'' @ [CHR 0xC3, CHR 0xAA] @ ''ncia: '' @ recency_msg @ '' (peso ''
                 @ fmt_f 2 (W_RECENCY cfg) @ '').'']
      in case (if has_known_exploit data then
                 (case py_int (B_EXPLOIT cfg * 100) of
                    Inl err \<Rightarrow> Inl err
                  | Inr n \<Rightarrow>
                      Inr (expl @ [''H'' @ [CHR 0xC3, CHR 0xA1] @ '' exploit conhecido (+''
                                     @ str_int n @ '' pontos base).'']))
               else Inr expl) of
           Inl err \<Rightarrow> Inl err
         | Inr expl \<Rightarrow>
             (case (if is_actively_exploited data then
                      (case py_int (B_ACTIVE cfg * 100) of
                         Inl err \<Rightarrow> Inl err
                       | Inr n \<Rightarrow>
                           Inr (expl @ [''Explora'' @ [CHR 0xC3, CHR 0xA7, CHR 0xC3, CHR 0xA3]
                                          @ ''o ativa em campo (+'' @ str_int n
                                          @ '' pontos base).'']))
                    else Inr expl) of
                Inl err \<Rightarrow> Inl err
              | Inr expl \<Rightarrow>
                  Inr (expl @ [''Score final: '' @ fmt_f 2 score @ '' ''
                                 @ [CHR 0xE2, CHR 0x86, CHR 0x92] @ '' n'' @ [CHR 0xC3, CHR 0xAD]
                                 @ ''vel '' @ level @ ''.''])))"

definition calc_score ::
  "config \<Rightarrow> int \<Rightarrow> FindingIn \<Rightarrow> py_error + (real \<times> string \<times> string \<times> Crit \<times> Exposure)" where
  "calc_score cfg now data =
     (let asset_crit = (case asset_criticality data of None \<Rightarrow> DEFAULT_CRIT cfg | Some c \<Rightarrow> c);
          expo = (case exposure data of None \<Rightarrow> DEFAULT_EXPO cfg | Some e \<Rightarrow> e);
          cvss_n = clamp01 (cvss data / 10);
          crit_w = CRIT_WEIGHTS asset_crit;
          expo_w = EXPO_WEIGHTS expo
      in case calc_yrs now data of
           Inl err \<Rightarrow> Inl err
         | Inr yrs \<Rightarrow>
             (let recency_factor = calc_recency_factor yrs;
                  recency_msg = calc_recency_msg yrs;
                  base = calc_base cfg data cvss_n crit_w expo_w recency_factor;
                  score = clamp01 base * 100;
                  level = calc_level score
              in case calc_expl cfg data asset_crit expo crit_w expo_w recency_msg score level of
                   Inl err \<Rightarrow> Inl err
                 | Inr expl \<Rightarrow> Inr (score, level, join '' '' expl, asset_crit, expo)))"

text \<open>
  The condition under which neither conversion raises: the bonus of every flag that is
  set, times 100, stays below the overflow bound.
\<close>

definition bonus_convertible :: "config \<Rightarrow> FindingIn \<Rightarrow> bool" where
  "bonus_convertible cfg data \<longleftrightarrow>
     (has_known_exploit data \<longrightarrow> \<bar>B_EXPLOIT cfg * 100\<bar> < float_overflow)
     \<and> (is_actively_exploited data \<longrightarrow> \<bar>B_ACTIVE cfg * 100\<bar> < float_overflow)"

subsection \<open>Endpoints\<close>

text \<open>
  The constructor call \<open>FindingOut(**base, asset_criticality=crit_res, exposure=expo_res,
  risk_score=..., risk_level=..., explanation=...)\<close>, the same in the three endpoints: the
  fields of the input but the two resolved ones, validated again as \<open>FindingIn\<close> fields are,
  and \<open>work_order\<close> at its default.
\<close>

definition FindingOut_init ::
  "FindingIn \<Rightarrow> Crit \<Rightarrow> Exposure \<Rightarrow> real \<Rightarrow> string \<Rightarrow> string \<Rightarrow> py_error + FindingOut" where
  "FindingOut_init base crit_res expo_res score lvl expl =
     (if 0 \<le> cvss base \<and> cvss base \<le> 10 then
        Inr \<lparr> id_f = id_f base, product = product base, host = host base, agent = agent base,
              cvss = cvss base, published = force_tz (published base), summary = summary base,
              asset_criticality = Some crit_res,
              has_known_exploit = has_known_exploit base,
              is_actively_exploited = is_actively_exploited base,
              exposure = Some expo_res, years = years base,
              risk_score = score, risk_level = lvl, explanation = expl, work_order = None \<rparr>
      else Inl ValidationError)"

definition score_endpoint :: "config \<Rightarrow> int \<Rightarrow> FindingIn \<Rightarrow> py_error + FindingOut" where
  "score_endpoint cfg now inp =
     (case calc_score cfg now inp of
        Inl err \<Rightarrow> Inl err
      | Inr (s, lvl, expl, crit_res, expo_res) \<Rightarrow>
          FindingOut_init inp crit_res expo_res (round2 s) lvl expl)"

text \<open>The dictionary \<open>{"CRITICAL": 0, "HIGH": 1, "MEDIUM": 2, "LOW": 3}\<close> indexed by \<open>lvl\<close>.\<close>

definition level_rank :: "string \<Rightarrow> py_error + nat" where
  "level_rank lvl =
     (if lvl = ''CRITICAL'' then Inr 0
      else if lvl = ''HIGH'' then Inr 1
      else if lvl = ''MEDIUM'' then Inr 2
      else if lvl = ''LOW'' then Inr 3
      else Inl KeyError)"

type_synonym sort_tuple = "nat \<times> real \<times> int \<times> int \<times> real \<times> real \<times> nat"

type_synonym ranked_tuple = "nat \<times> real \<times> int \<times> int \<times> real \<times> real \<times> nat \<times> FindingOut"

text \<open>
  The body of the first loop of \<open>score_batch\<close> for one \<open>(idx, item)\<close>: the tuple appended
  to \<open>ranked\<close>. \<open>now\<close> is the instant that this call of \<open>calc_score\<close> reads.
\<close>

definition rank_item :: "config \<Rightarrow> int \<Rightarrow> nat \<Rightarrow> FindingIn \<Rightarrow> py_error + ranked_tuple" where
  "rank_item cfg now idx item =
     (case calc_score cfg now item of
        Inl err \<Rightarrow> Inl err
      | Inr (s, lvl, expl, crit_res, expo_res) \<Rightarrow>
          (case level_rank lvl of
             Inl err \<Rightarrow> Inl err
           | Inr lr \<Rightarrow>
               (let expo_w = EXPO_WEIGHTS expo_res;
                    crit_w = CRIT_WEIGHTS crit_res;
                    active = (if is_actively_exploited item then 1 else 0);
                    known = (if has_known_exploit item then 1 else 0)
                in case FindingOut_init item crit_res expo_res (round2 s) lvl expl of
                     Inl err \<Rightarrow> Inl err
                   | Inr res \<Rightarrow>
                       Inr (lr, - s, - active, - known, - expo_w, - crit_w, idx, res))))"

text \<open>
  The loop over \<open>enumerate(payload.items)\<close>, from index \<open>idx\<close> on. Each call of
  \<open>calc_score\<close> reads the clock itself: \<open>now idx\<close> is the instant read for item \<open>idx\<close>.
  An exception leaves the loop and the endpoint.
\<close>

fun ranked_from ::
  "config \<Rightarrow> (nat \<Rightarrow> int) \<Rightarrow> nat \<Rightarrow> FindingIn list \<Rightarrow> py_error + ranked_tuple list" where
  "ranked_from cfg now idx [] = Inr []"
| "ranked_from cfg now idx (item # items) =
     (case rank_item cfg (now idx) idx item of
        Inl err \<Rightarrow> Inl err
      | Inr t \<Rightarrow>
          (case ranked_from cfg now (Suc idx) items of
             Inl err \<Rightarrow> Inl err
           | Inr ranked \<Rightarrow> Inr (t # ranked)))"

text \<open>The sort key \<open>lambda t: (t[0], t[1], t[2], t[3], t[4], t[5], t[6])\<close> and \<open>t[-1]\<close>.\<close>

definition key_of :: "ranked_tuple \<Rightarrow> sort_tuple" where
  "key_of t = (case t of (t0, t1, t2, t3, t4, t5, t6, res) \<Rightarrow> (t0, t1, t2, t3, t4, t5, t6))"

definition res_of :: "ranked_tuple \<Rightarrow> FindingOut" where
  "res_of t = (case t of (t0, t1, t2, t3, t4, t5, t6, res) \<Rightarrow> res)"

definition idx_of :: "ranked_tuple \<Rightarrow> nat" where
  "idx_of t = (case t of (t0, t1, t2, t3, t4, t5, t6, res) \<Rightarrow> t6)"


text \<open>The second loop: \<open>for i, obj in enumerate(ordered, start=1): obj.work_order = i\<close>.\<close>

fun assign_work_order :: "int \<Rightarrow> FindingOut list \<Rightarrow> FindingOut list" where
  "assign_work_order i [] = []"
| "assign_work_order i (obj # ordered) =
     obj\<lparr>work_order := Some i\<rparr> # assign_work_order (i + 1) ordered"

text \<open>
  \<open>list.sort\<close> is a stable sort by the key, tuples compared lexicographically; \<open>sort_key\<close> is
  one.
\<close>

definition sorted_ranked ::
  "config \<Rightarrow> (nat \<Rightarrow> int) \<Rightarrow> FindingIn list \<Rightarrow> py_error + ranked_tuple list" where
  "sorted_ranked cfg now items =
     (case ranked_from cfg now 0 items of
        Inl err \<Rightarrow> Inl err
      | Inr ranked \<Rightarrow> Inr (sort_key key_of ranked))"

definition score_batch ::
  "config \<Rightarrow> (nat \<Rightarrow> int) \<Rightarrow> FindingIn list \<Rightarrow> py_error + FindingOut list" where
  "score_batch cfg now items =
     (case sorted_ranked cfg now items of
        Inl err \<Rightarrow> Inl err
      | Inr ranked \<Rightarrow> Inr (assign_work_order 1 (map res_of ranked)))"

text \<open>\<open>FindingIn(**inp.dict())\<close>: the fields by name, validated as every \<open>FindingIn\<close> is.\<close>

definition as_finding :: "CVECheckIn \<Rightarrow> py_error + FindingIn" where
  "as_finding inp =
     (if 0 \<le> c_cvss inp \<and> c_cvss inp \<le> 10 then
        Inr \<lparr> id_f = c_id inp, product = c_product inp, host = c_host inp, agent = c_agent inp,
              cvss = c_cvss inp, published = force_tz (c_published inp),
              summary = c_summary inp, asset_criticality = c_asset_criticality inp,
              has_known_exploit = c_has_known_exploit inp,
              is_actively_exploited = c_is_actively_exploited inp,
              exposure = c_exposure inp, years = c_years inp \<rparr>
      else Inl ValidationError)"

definition cve_check_endpoint :: "config \<Rightarrow> int \<Rightarrow> CVECheckIn \<Rightarrow> py_error + FindingOut" where
  "cve_check_endpoint cfg now inp =
     (case as_finding inp of
        Inl err \<Rightarrow> Inl err
      | Inr finding \<Rightarrow>
          (case calc_score cfg now finding of
             Inl err \<Rightarrow> Inl err
           | Inr (s, lvl, expl, crit_res, expo_res) \<Rightarrow>
               FindingOut_init finding crit_res expo_res (round2 s) lvl expl))"

subsection \<open>Example inputs\<close>

text \<open>
  A finding at the top of every scale, published at the instant \<open>t\<close>; and a finding ten
  years old with no known exploit on a critical, internet-facing asset, whose score under
  the default weights is \<open>5 * v + 35\<close> for the CVSS value \<open>v\<close>; and a finding four years
  old that leaves criticality and exposure to the defaults.
\<close>

definition finding_max :: "int \<Rightarrow> FindingIn" where
  "finding_max t =
     \<lparr> id_f = ''CVE-2024-0001'', product = None, host = None, agent = None, cvss = 9.8,
       published = \<lparr> wall = t, utcoffset = Some 0 \<rparr>, summary = Some [],
       asset_criticality = Some critica, has_known_exploit = True,
       is_actively_exploited = True, exposure = Some internet, years = None \<rparr>"

definition finding_old :: "real \<Rightarrow> FindingIn" where
  "finding_old v =
     \<lparr> id_f = ''CVE-2014-0002'', product = None, host = None, agent = None, cvss = v,
       published = \<lparr> wall = 0, utcoffset = Some 0 \<rparr>, summary = Some [],
       asset_criticality = Some critica, has_known_exploit = False,
       is_actively_exploited = False, exposure = Some internet, years = Some 10 \<rparr>"

definition finding_plain :: "real \<Rightarrow> FindingIn" where
  "finding_plain v =
     \<lparr> id_f = ''CVE-2025-0003'', product = None, host = None, agent = None, cvss = v,
       published = \<lparr> wall = 0, utcoffset = Some 0 \<rparr>, summary = Some [],
       asset_criticality = None, has_known_exploit = False,
       is_actively_exploited = False, exposure = None, years = Some 4 \<rparr>"

text \<open>The request to \<open>/cve/check\<close> with the fields of \<open>finding_old 7\<close>.\<close>

definition check_old :: CVECheckIn where
  "check_old =
     \<lparr> c_id = ''CVE-2014-0002'', c_cvss = 7, c_published = \<lparr> wall = 0, utcoffset = Some 0 \<rparr>,
       c_summary = Some [], c_product = None, c_host = None, c_agent = None,
       c_has_known_exploit = False, c_is_actively_exploited = False,
       c_asset_criticality = Some critica, c_exposure = Some internet, c_years = Some 10 \<rparr>"

text \<open>
  A stand-in for \<open>float\<close> on the few strings the examples use, the configuration of a
  process started with \<open>WZ_W_CVSS=-0.5\<close>, and an environment in which every override is
  malformed.
\<close>

definition float_sample :: "string \<Rightarrow> py_error + real" where
  "float_sample s =
     (if s = ''0.7'' then Inr 0.7 else if s = ''-0.5'' then Inr (- 0.5) else Inl ValueError)"

definition config_negative :: config where
  "config_negative = load_config float_sample (Map.empty(''WZ_W_CVSS'' \<mapsto> ''-0.5''))"

definition environ_malformed :: environ where
  "environ_malformed =
     Map.empty(''WZ_W_CVSS'' \<mapsto> ''half'', ''WZ_W_CRIT'' \<mapsto> ''0,2'', ''WZ_W_EXPO'' \<mapsto> [],
       ''WZ_W_RECENCY'' \<mapsto> ''ten%'', ''WZ_B_EXPLOIT'' \<mapsto> ''+'', ''WZ_B_ACTIVE'' \<mapsto> ''0.2.5'',
       ''WZ_DEFAULT_CRIT'' \<mapsto> ''CRITICA'', ''WZ_DEFAULT_EXPO'' \<mapsto> ''public'')"

text \<open>The configuration of a process started with \<open>WZ_B_EXPLOIT=1e307\<close>.\<close>

definition config_huge :: config where
  "config_huge = default_config\<lparr>B_EXPLOIT := 10 ^ 307\<rparr>"

text \<open>A batch of four findings, the first and the last the same.\<close>

definition batch_sample :: "FindingIn list" where
  "batch_sample = [finding_plain 2, finding_max 0, finding_old 7, finding_plain 2]"

subsection \<open>Orders on tiers and on results\<close>

text \<open>
  The order of the criticality levels (low, medium, high, critical) and of the exposure
  levels (isolated, internal, internet-facing), as positions.
\<close>

fun Crit_rank :: "Crit \<Rightarrow> nat" where
  "Crit_rank baixa = 0"
| "Crit_rank media = 1"
| "Crit_rank alta = 2"
| "Crit_rank critica = 3"

fun Exposure_rank :: "Exposure \<Rightarrow> nat" where
  "Exposure_rank isolada = 0"
| "Exposure_rank interna = 1"
| "Exposure_rank internet = 2"

text \<open>Both calls of \<open>calc_score\<close> return, and the first score is at most the second.\<close>

type_synonym score_result = "py_error + (real \<times> string \<times> string \<times> Crit \<times> Exposure)"

definition score_le :: "score_result \<Rightarrow> score_result \<Rightarrow> bool" where
  "score_le r r' =
     (case r of
        Inl _ \<Rightarrow> False
      | Inr (s, _) \<Rightarrow> (case r' of Inl _ \<Rightarrow> False | Inr (s', _) \<Rightarrow> s \<le> s'))"

section \<open>Properties\<close>

subsection \<open>Auxiliary facts\<close>

lemmas eval_defs = calc_score_def calc_yrs_def years_since_def calc_recency_factor_def
  clamp01_def clamp_def calc_base_def calc_level_def default_config_def Let_def
  score_endpoint_def FindingOut_init_def round2_def round_half_even_def calc_expl_def

lemma clamp01_bounds: "0 \<le> clamp01 x \<and> clamp01 x \<le> 1"
  by (simp add: clamp01_def clamp_def)

lemma clamp01_mono: "x \<le> y \<Longrightarrow> clamp01 x \<le> clamp01 y"
  by (simp add: clamp01_def clamp_def min_def max_def)

lemma round_half_even_lower: "real_of_int n \<le> x \<Longrightarrow> n \<le> round_half_even x"
proof -
  assume "real_of_int n \<le> x"
  then have "n \<le> \<lfloor>x\<rfloor>" by (simp add: le_floor_iff)
  moreover have "\<lfloor>x\<rfloor> \<le> round_half_even x"
    by (simp add: round_half_even_def Let_def)
  ultimately show ?thesis by linarith
qed

lemma round_half_even_upper: "x \<le> real_of_int n \<Longrightarrow> round_half_even x \<le> n"
proof (cases "x = real_of_int \<lfloor>x\<rfloor>")
  case True
  assume "x \<le> real_of_int n"
  then have "\<lfloor>x\<rfloor> \<le> n" by (simp add: floor_le_iff)
  moreover from True have "round_half_even x = \<lfloor>x\<rfloor>"
    by (simp add: round_half_even_def Let_def)
  ultimately show ?thesis by simp
next
  case False
  assume le: "x \<le> real_of_int n"
  have "real_of_int \<lfloor>x\<rfloor> \<le> x" by simp
  with False have "real_of_int \<lfloor>x\<rfloor> < real_of_int n" using le by linarith
  then have "\<lfloor>x\<rfloor> + 1 \<le> n" by simp
  moreover have "round_half_even x \<le> \<lfloor>x\<rfloor> + 1"
    by (simp add: round_half_even_def Let_def)
  ultimately show ?thesis by linarith
qed

lemma round_half_even_near: "\<bar>real_of_int (round_half_even x) - x\<bar> \<le> 1 / 2"
proof -
  have "real_of_int \<lfloor>x\<rfloor> \<le> x" "x < real_of_int \<lfloor>x\<rfloor> + 1" by linarith+
  then show ?thesis
    by (auto simp: round_half_even_def Let_def abs_le_iff)
qed

lemma round2_bounds: "0 \<le> s \<Longrightarrow> s \<le> 100 \<Longrightarrow> 0 \<le> round2 s \<and> round2 s \<le> 100"
proof -
  assume a: "0 \<le> s" "s \<le> 100"
  have "0 \<le> round_half_even (s * 100)"
    using round_half_even_lower [of 0 "s * 100"] a by simp
  moreover have "round_half_even (s * 100) \<le> 10000"
    using round_half_even_upper [of "s * 100" 10000] a by simp
  ultimately show ?thesis by (simp add: round2_def)
qed

lemma round2_near: "\<bar>round2 s - s\<bar> \<le> 1 / 200"
  using round_half_even_near [of "s * 100"] by (simp add: round2_def abs_le_iff field_simps)

text \<open>On a validated finding the age is defined, whether given or derived.\<close>

lemma calc_yrs_valid: "FindingIn_valid f \<Longrightarrow> \<exists>yrs. calc_yrs now f = Inr yrs"
proof (cases "years f")
  case None
  assume "FindingIn_valid f"
  then obtain off where "utcoffset (published f) = Some off"
    by (auto simp: FindingIn_valid_def)
  with None have "calc_yrs now f =
      Inr (real_of_int ((now - (wall (published f) - off)) div 86400000000) / 365.25)"
    by (simp add: calc_yrs_def years_since_def Let_def)
  then show ?thesis ..
next
  case (Some y)
  then have "calc_yrs now f = Inr (max 0 y)" by (simp add: calc_yrs_def)
  then show ?thesis ..
qed

text \<open>The conversions \<open>int(B_EXPLOIT*100)\<close> and \<open>int(B_ACTIVE*100)\<close>.\<close>

lemma float_overflow_large: "10 ^ 300 < float_overflow"
  by (simp add: float_overflow_def)

lemma py_int_Inr:
  "\<bar>x\<bar> < float_overflow \<Longrightarrow> py_int x = Inr (if 0 \<le> x then \<lfloor>x\<rfloor> else \<lceil>x\<rceil>)"
  by (simp add: py_int_def)

lemma py_int_Inl: "float_overflow \<le> \<bar>x\<bar> \<Longrightarrow> py_int x = Inl OverflowError"
  by (simp add: py_int_def)

lemma py_int_15: "py_int 15 = Inr 15"
  using float_overflow_large by (simp add: py_int_def)

lemma py_int_25: "py_int 25 = Inr 25"
  using float_overflow_large by (simp add: py_int_def)

lemma bonus_convertible_default: "bonus_convertible default_config f"
  using float_overflow_large by (simp add: bonus_convertible_def default_config_def)

lemma calc_expl_Inr:
  assumes "bonus_convertible cfg data"
  shows "\<exists>expl. calc_expl cfg data c e cw ew msg s lvl = Inr expl"
  using assms
  by (simp add: calc_expl_def bonus_convertible_def py_int_Inr Let_def)

lemma calc_expl_InrD:
  assumes "calc_expl cfg data c e cw ew msg s lvl = Inr expl"
  shows "bonus_convertible cfg data"
  using assms
  by (auto simp: calc_expl_def bonus_convertible_def py_int_def Let_def
      split: if_splits sum.splits)

lemma calc_expl_Inl: "calc_expl cfg data c e cw ew msg s lvl = Inl err \<Longrightarrow> err = OverflowError"
  by (auto simp: calc_expl_def py_int_def Let_def split: if_splits sum.splits)

text \<open>
  What \<open>calc_score\<close> returns once the age is known: a result exactly when the
  conversions succeed, \<open>OverflowError\<close> otherwise.
\<close>

lemma calc_score_Inr:
  assumes "calc_yrs now f = Inr yrs" and "bonus_convertible cfg f"
  shows "\<exists>expl. calc_score cfg now f =
    (let c = (case asset_criticality f of None \<Rightarrow> DEFAULT_CRIT cfg | Some c \<Rightarrow> c);
         e = (case exposure f of None \<Rightarrow> DEFAULT_EXPO cfg | Some e \<Rightarrow> e);
         s = clamp01 (calc_base cfg f (clamp01 (cvss f / 10)) (CRIT_WEIGHTS c) (EXPO_WEIGHTS e)
                (calc_recency_factor yrs)) * 100
     in Inr (s, calc_level s, expl, c, e))"
proof -
  obtain expl where "calc_expl cfg f
      (case asset_criticality f of None \<Rightarrow> DEFAULT_CRIT cfg | Some c \<Rightarrow> c)
      (case exposure f of None \<Rightarrow> DEFAULT_EXPO cfg | Some e \<Rightarrow> e)
      (CRIT_WEIGHTS (case asset_criticality f of None \<Rightarrow> DEFAULT_CRIT cfg | Some c \<Rightarrow> c))
      (EXPO_WEIGHTS (case exposure f of None \<Rightarrow> DEFAULT_EXPO cfg | Some e \<Rightarrow> e))
      (calc_recency_msg yrs)
      (clamp01 (calc_base cfg f (clamp01 (cvss f / 10))
         (CRIT_WEIGHTS (case asset_criticality f of None \<Rightarrow> DEFAULT_CRIT cfg | Some c \<Rightarrow> c))
         (EXPO_WEIGHTS (case exposure f of None \<Rightarrow> DEFAULT_EXPO cfg | Some e \<Rightarrow> e))
         (calc_recency_factor yrs)) * 100)
      (calc_level (clamp01 (calc_base cfg f (clamp01 (cvss f / 10))
         (CRIT_WEIGHTS (case asset_criticality f of None \<Rightarrow> DEFAULT_CRIT cfg | Some c \<Rightarrow> c))
         (EXPO_WEIGHTS (case exposure f of None \<Rightarrow> DEFAULT_EXPO cfg | Some e \<Rightarrow> e))
         (calc_recency_factor yrs)) * 100)) = Inr expl"
    using calc_expl_Inr [OF assms(2)] by blast
  then show ?thesis using assms(1) by (simp add: calc_score_def Let_def)
qed

lemma calc_score_InrD:
  assumes "calc_score cfg now f = Inr (s, lvl, expl, c, e)"
  shows "(\<exists>b. s = clamp01 b * 100) \<and> lvl = calc_level s \<and> bonus_convertible cfg f
    \<and> c = (case asset_criticality f of None \<Rightarrow> DEFAULT_CRIT cfg | Some c \<Rightarrow> c)
    \<and> e = (case exposure f of None \<Rightarrow> DEFAULT_EXPO cfg | Some e \<Rightarrow> e)"
  using assms
  by (auto simp: calc_score_def Let_def split: sum.splits dest: calc_expl_InrD)

lemma calc_score_Inl:
  assumes "calc_yrs now f = Inr yrs" and "\<not> bonus_convertible cfg f"
  shows "calc_score cfg now f = Inl OverflowError"
proof (cases "calc_score cfg now f")
  case (Inl err)
  then show ?thesis using assms(1)
    by (auto simp: calc_score_def Let_def split: sum.splits dest: calc_expl_Inl)
next
  case (Inr r)
  then show ?thesis using assms(2) calc_score_InrD [of cfg now f] by (cases r) auto
qed

lemma ev_max:
  "\<exists>expl. calc_score default_config t (finding_max t)
      = Inr (100, ''CRITICAL'', expl, critica, internet)"
  by (simp add: eval_defs finding_max_def py_int_15 py_int_25)

lemma huge_not_convertible: "\<not> bonus_convertible config_huge (finding_max t)"
  by (simp add: bonus_convertible_def config_huge_def default_config_def finding_max_def
      float_overflow_def)

subsection \<open>Range of the score\<close>

text \<open>
  C2. For every finding and every configuration of weights, bonuses and defaults, a score
  that \<open>calc_score\<close> returns lies between 0 and 100, and so does the score rounded to
  two decimals that the endpoints report. On a validated finding \<open>calc_score\<close> returns a
  score exactly when \<open>int(bonus*100)\<close> can be computed for the bonus of every flag that
  is set; otherwise it raises \<open>OverflowError\<close>.
\<close>

theorem score_in_range:
  "(calc_score cfg now f = Inr (s, lvl, expl, c, e) \<longrightarrow>
      0 \<le> s \<and> s \<le> 100 \<and> 0 \<le> round2 s \<and> round2 s \<le> 100)
   \<and> (FindingIn_valid f \<and> bonus_convertible cfg f \<longrightarrow>
        (\<exists>s lvl expl c e. calc_score cfg now f = Inr (s, lvl, expl, c, e)))
   \<and> (FindingIn_valid f \<and> \<not> bonus_convertible cfg f \<longrightarrow>
        calc_score cfg now f = Inl OverflowError)"
proof -
  have 1: "calc_score cfg now f = Inr (s, lvl, expl, c, e) \<longrightarrow>
      0 \<le> s \<and> s \<le> 100 \<and> 0 \<le> round2 s \<and> round2 s \<le> 100"
  proof
    assume "calc_score cfg now f = Inr (s, lvl, expl, c, e)"
    then obtain b where "s = clamp01 b * 100" using calc_score_InrD by blast
    then have "0 \<le> s \<and> s \<le> 100" using clamp01_bounds [of b] by simp
    then show "0 \<le> s \<and> s \<le> 100 \<and> 0 \<le> round2 s \<and> round2 s \<le> 100"
      using round2_bounds by blast
  qed
  have 2: "FindingIn_valid f \<and> bonus_convertible cfg f \<longrightarrow>
        (\<exists>s lvl expl c e. calc_score cfg now f = Inr (s, lvl, expl, c, e))"
  proof
    assume a: "FindingIn_valid f \<and> bonus_convertible cfg f"
    then obtain yrs where "calc_yrs now f = Inr yrs" using calc_yrs_valid by blast
    with a show "\<exists>s lvl expl c e. calc_score cfg now f = Inr (s, lvl, expl, c, e)"
      using calc_score_Inr [of now f yrs cfg] by (auto simp: Let_def)
  qed
  have 3: "FindingIn_valid f \<and> \<not> bonus_convertible cfg f \<longrightarrow>
        calc_score cfg now f = Inl OverflowError"
  proof
    assume a: "FindingIn_valid f \<and> \<not> bonus_convertible cfg f"
    then obtain yrs where "calc_yrs now f = Inr yrs" using calc_yrs_valid by blast
    with a show "calc_score cfg now f = Inl OverflowError" using calc_score_Inl by blast
  qed
  from 1 2 3 show ?thesis by (intro conjI)
qed

theorem score_in_range_witness:
  "FindingIn_valid (finding_max 0) \<and> bonus_convertible default_config (finding_max 0)
   \<and> (\<exists>s lvl expl c e. calc_score default_config 0 (finding_max 0) = Inr (s, lvl, expl, c, e)
         \<and> 0 \<le> s \<and> s \<le> 100 \<and> 0 \<le> round2 s \<and> round2 s \<le> 100)
   \<and> \<not> bonus_convertible config_huge (finding_max 0)
   \<and> calc_score config_huge 0 (finding_max 0) = Inl OverflowError"
proof -
  have v: "FindingIn_valid (finding_max 0)"
    by (simp add: FindingIn_valid_def finding_max_def)
  have b: "bonus_convertible default_config (finding_max 0)"
    by (rule bonus_convertible_default)
  have n: "\<not> bonus_convertible config_huge (finding_max 0)" by (rule huge_not_convertible)
  obtain s lvl expl c e where
    r: "calc_score default_config 0 (finding_max 0) = Inr (s, lvl, expl, c, e)"
    using score_in_range [of default_config 0 "finding_max 0"] v b by blast
  then have g: "0 \<le> s \<and> s \<le> 100 \<and> 0 \<le> round2 s \<and> round2 s \<le> 100"
    using score_in_range [of default_config 0 "finding_max 0" s lvl expl c e] by blast
  have h: "calc_score config_huge 0 (finding_max 0) = Inl OverflowError"
    using score_in_range [of config_huge 0 "finding_max 0"] v n by blast
  from r g have "\<exists>s lvl expl c e.
      calc_score default_config 0 (finding_max 0) = Inr (s, lvl, expl, c, e)
         \<and> 0 \<le> s \<and> s \<le> 100 \<and> 0 \<le> round2 s \<and> round2 s \<le> 100" by blast
  with v b n h show ?thesis by (intro conjI)
qed

subsection \<open>Tier thresholds\<close>

lemma calc_level_rank_mono:
  "s1 \<le> s2 \<Longrightarrow>
   \<exists>r1 r2. level_rank (calc_level s1) = Inr r1 \<and> level_rank (calc_level s2) = Inr r2 \<and> r2 \<le> r1"
  by (simp add: calc_level_def level_rank_def)

text \<open>
  C1. The tier is a monotonic step function of the score \<open>s\<close> that \<open>calc_score\<close> computes,
  with the fixed thresholds 90, 70 and 40 inclusive on the lower bound: \<open>CRITICAL\<close> from
  90, \<open>HIGH\<close> from 70 to below 90, \<open>MEDIUM\<close> from 40 to below 70, \<open>LOW\<close> below 40. The
  tier is taken from this score before \<open>round(s, 2)\<close>: a finding reported at 69.99 is
  \<open>MEDIUM\<close>, and a finding reported at 70.00 is \<open>HIGH\<close> when its score is at least 70 and
  \<open>MEDIUM\<close> when its score is below 70 and rounds up to it.
\<close>
theorem tier_step:
  assumes "calc_score cfg now f = Inr (s, lvl, expl, c, e)"
  shows "lvl = (if 90 \<le> s then ''CRITICAL'' else if 70 \<le> s then ''HIGH''
                else if 40 \<le> s then ''MEDIUM'' else ''LOW'')
    \<and> (\<forall>s'. s \<le> s' \<longrightarrow>
          (\<exists>r r'. level_rank lvl = Inr r \<and> level_rank (calc_level s') = Inr r' \<and> r' \<le> r))
    \<and> (round2 s = 69.99 \<longrightarrow> lvl = ''MEDIUM'')
    \<and> (round2 s = 70 \<longrightarrow> (if 70 \<le> s then lvl = ''HIGH'' else lvl = ''MEDIUM''))"
proof -
  from assms have l: "lvl = calc_level s" using calc_score_InrD by blast
  have n: "\<bar>round2 s - s\<bar> \<le> 1 / 200" by (rule round2_near)
  have m: "\<forall>s'. s \<le> s' \<longrightarrow>
          (\<exists>r r'. level_rank lvl = Inr r \<and> level_rank (calc_level s') = Inr r' \<and> r' \<le> r)"
    unfolding l using calc_level_rank_mono by blast
  have "lvl = (if 90 \<le> s then ''CRITICAL'' else if 70 \<le> s then ''HIGH''
                else if 40 \<le> s then ''MEDIUM'' else ''LOW'')"
    by (simp add: l calc_level_def)
  moreover have "round2 s = 69.99 \<longrightarrow> lvl = ''MEDIUM''"
    using n by (auto simp: l calc_level_def abs_le_iff)
  moreover have "round2 s = 70 \<longrightarrow> (if 70 \<le> s then lvl = ''HIGH'' else lvl = ''MEDIUM'')"
    using n by (auto simp: l calc_level_def abs_le_iff)
  ultimately show ?thesis using m by blast
qed

theorem tier_step_witness:
  "(\<exists>s lvl expl c e. calc_score default_config 0 (finding_old 6.998) = Inr (s, lvl, expl, c, e)
       \<and> round2 s = 69.99 \<and> lvl = ''MEDIUM'')
   \<and> (\<exists>s lvl expl c e. calc_score default_config 0 (finding_old 6.9996) = Inr (s, lvl, expl, c, e)
       \<and> round2 s = 70 \<and> \<not> 70 \<le> s \<and> lvl = ''MEDIUM'')
   \<and> (\<exists>s lvl expl c e. calc_score default_config 0 (finding_old 7) = Inr (s, lvl, expl, c, e)
       \<and> round2 s = 70 \<and> 70 \<le> s \<and> lvl = ''HIGH'')"
proof -
  obtain l1 x1 where r1: "calc_score default_config 0 (finding_old 6.998)
      = Inr (69.99, l1, x1, critica, internet)"
    by (simp add: eval_defs finding_old_def)
  obtain l2 x2 where r2: "calc_score default_config 0 (finding_old 6.9996)
      = Inr (69.998, l2, x2, critica, internet)"
    by (simp add: eval_defs finding_old_def)
  obtain l3 x3 where r3: "calc_score default_config 0 (finding_old 7)
      = Inr (70, l3, x3, critica, internet)"
    by (simp add: eval_defs finding_old_def)
  have q1: "round2 69.99 = 69.99" by (simp add: round2_def round_half_even_def Let_def)
  have q2: "round2 69.998 = 70" by (simp add: round2_def round_half_even_def Let_def)
  have q3: "round2 70 = 70" by (simp add: round2_def round_half_even_def Let_def)
  have "l1 = ''MEDIUM''" using tier_step [OF r1] q1 by blast
  with r1 q1 have w1: "\<exists>s lvl expl c e.
      calc_score default_config 0 (finding_old 6.998) = Inr (s, lvl, expl, c, e)
       \<and> round2 s = 69.99 \<and> lvl = ''MEDIUM''" by blast
  have n2: "\<not> 70 \<le> (69.998::real)" by simp
  have "l2 = ''MEDIUM''" using tier_step [OF r2] q2 n2 by simp
  with r2 q2 n2 have w2: "\<exists>s lvl expl c e.
      calc_score default_config 0 (finding_old 6.9996) = Inr (s, lvl, expl, c, e)
       \<and> round2 s = 70 \<and> \<not> 70 \<le> s \<and> lvl = ''MEDIUM''" by blast
  have n3: "70 \<le> (70::real)" by simp
  have "l3 = ''HIGH''" using tier_step [OF r3] q3 n3 by simp
  with r3 q3 n3 have w3: "\<exists>s lvl expl c e.
      calc_score default_config 0 (finding_old 7) = Inr (s, lvl, expl, c, e)
       \<and> round2 s = 70 \<and> 70 \<le> s \<and> lvl = ''HIGH''" by blast
  from w1 w2 w3 show ?thesis by blast
qed

text \<open>
  The tier read off the reported score fails: under the default weights the finding
  \<open>finding_old 6.9996\<close> has the score 69.998, which \<open>/score\<close> reports as 70.00 with the tier
  \<open>MEDIUM\<close>.
\<close>

theorem tier_reported_counterexample:
  "map_sum id risk_score (score_endpoint default_config 0 (finding_old 6.9996)) = Inr 70
   \<and> map_sum id risk_level (score_endpoint default_config 0 (finding_old 6.9996))
       = Inr ''MEDIUM''"
  by (simp add: eval_defs finding_old_def)

subsection \<open>The scenario of the highest score\<close>

text \<open>
  C6. Under the default weights (0.50, 0.20, 0.15, 0.10 and the bonuses 0.15 and 0.25, the
  configuration of a process started with no override) the finding with CVSS 9.8,
  criticality \<open>critica\<close>, exposure \<open>internet\<close>, both exploit flags set and published at
  the instant of the evaluation has the age 0 and the base 1.34, which is clamped to 1:
  the score is 100, reported as 100.00, and the tier is \<open>CRITICAL\<close>.
\<close>
theorem scenario_max:
  "load_config py_float Map.empty = default_config
   \<and> calc_yrs t (finding_max t) = Inr 0
   \<and> calc_base default_config (finding_max t) (clamp01 (cvss (finding_max t) / 10))
        (CRIT_WEIGHTS critica) (EXPO_WEIGHTS internet) (calc_recency_factor 0) = 1.34
   \<and> clamp01 1.34 = 1
   \<and> (\<exists>expl. calc_score default_config t (finding_max t)
          = Inr (100, ''CRITICAL'', expl, critica, internet))
   \<and> map_sum id risk_score (score_endpoint default_config t (finding_max t)) = Inr 100
   \<and> map_sum id risk_level (score_endpoint default_config t (finding_max t)) = Inr ''CRITICAL''"
proof -
  have a: "load_config py_float Map.empty = default_config"
    by (simp add: load_config_def default_config_def env_float_def env_enum_def)
  have b: "calc_yrs t (finding_max t) = Inr 0"
    by (simp add: calc_yrs_def years_since_def finding_max_def)
  have c: "calc_base default_config (finding_max t) (clamp01 (cvss (finding_max t) / 10))
        (CRIT_WEIGHTS critica) (EXPO_WEIGHTS internet) (calc_recency_factor 0) = 1.34"
    by (simp add: calc_base_def default_config_def finding_max_def clamp01_def clamp_def
        calc_recency_factor_def Let_def)
  have d: "clamp01 1.34 = 1" by (simp add: clamp01_def clamp_def)
  have e: "\<exists>expl. calc_score default_config t (finding_max t)
          = Inr (100, ''CRITICAL'', expl, critica, internet)"
    by (simp add: eval_defs finding_max_def py_int_15 py_int_25)
  have f: "map_sum id risk_score (score_endpoint default_config t (finding_max t)) = Inr 100"
    by (simp add: eval_defs finding_max_def py_int_15 py_int_25)
  have g: "map_sum id risk_level (score_endpoint default_config t (finding_max t))
       = Inr ''CRITICAL''"
    by (simp add: eval_defs finding_max_def py_int_15 py_int_25)
  from a b c d e f g show ?thesis by blast
qed

theorem scenario_max_witness:
  "calc_yrs 0 (finding_max 0) = Inr 0
   \<and> (\<exists>expl. calc_score default_config 0 (finding_max 0)
          = Inr (100, ''CRITICAL'', expl, critica, internet))
   \<and> map_sum id risk_score (score_endpoint default_config 0 (finding_max 0)) = Inr 100"
  using scenario_max [of float_sample 0] by blast

subsection \<open>Determinism with an explicit age\<close>

text \<open>
  C7. When the finding carries \<open>years\<close>, \<open>calc_score\<close> does not depend on the clock: two
  calls on the same finding under the same configuration, at whatever instants, return
  the same result (the same score, tier, explanation and resolved attributes, or the same
  exception), and so does \<open>/score\<close>; the result is a score whenever the conversions of
  the bonuses succeed.
\<close>
theorem explicit_years_deterministic:
  assumes "years f = Some y"
  shows "calc_score cfg now f = calc_score cfg now' f
    \<and> score_endpoint cfg now f = score_endpoint cfg now' f
    \<and> (bonus_convertible cfg f \<longrightarrow>
         (\<exists>s lvl expl c e. calc_score cfg now f = Inr (s, lvl, expl, c, e)))"
proof -
  from assms have y: "calc_yrs now f = Inr (max 0 y)" "calc_yrs now' f = Inr (max 0 y)"
    by (simp_all add: calc_yrs_def)
  have eq: "calc_score cfg now f = calc_score cfg now' f"
    by (simp add: calc_score_def y)
  then have ep: "score_endpoint cfg now f = score_endpoint cfg now' f"
    by (simp add: score_endpoint_def)
  have "bonus_convertible cfg f \<longrightarrow>
         (\<exists>s lvl expl c e. calc_score cfg now f = Inr (s, lvl, expl, c, e))"
    using calc_score_Inr [OF y(1), of cfg] by (auto simp: Let_def)
  with eq ep show ?thesis by (intro conjI)
qed

theorem explicit_years_deterministic_witness:
  "years (finding_old 7) = Some 10
   \<and> calc_score default_config 0 (finding_old 7)
       = calc_score default_config 1700000000000000 (finding_old 7)
   \<and> score_endpoint default_config 0 (finding_old 7)
       = score_endpoint default_config 1700000000000000 (finding_old 7)
   \<and> bonus_convertible default_config (finding_old 7)
   \<and> (\<exists>s lvl expl c e. calc_score default_config 0 (finding_old 7) = Inr (s, lvl, expl, c, e))"
proof -
  have h: "years (finding_old 7) = Some 10" by (simp add: finding_old_def)
  have b: "bonus_convertible default_config (finding_old 7)"
    by (rule bonus_convertible_default)
  show ?thesis
    using h b explicit_years_deterministic [OF h, of default_config 0 1700000000000000]
    by blast
qed

subsection \<open>Publication in the future\<close>

text \<open>
  C10. When the finding omits \<open>years\<close> and its publication instant is later than the
  instant of the evaluation, the derived age is negative, the recency factor is 1, and
  the score that \<open>calc_score\<close> returns lies between 0 and 100; it returns one whenever
  the conversions of the bonuses succeed. An explicit \<open>years\<close> is floored at 0.
\<close>

theorem future_publication:
  assumes "years f = None" and "utcoffset (published f) = Some off"
    and "now < wall (published f) - off"
  shows "(\<exists>yrs. calc_yrs now f = Inr yrs \<and> yrs < 0 \<and> calc_recency_factor yrs = 1)
    \<and> (calc_score cfg now f = Inr (s, lvl, expl, c, e) \<longrightarrow> 0 \<le> s \<and> s \<le> 100)
    \<and> (bonus_convertible cfg f \<longrightarrow>
         (\<exists>s lvl expl c e. calc_score cfg now f = Inr (s, lvl, expl, c, e)
            \<and> 0 \<le> s \<and> s \<le> 100))
    \<and> (\<forall>y. \<exists>yrs. calc_yrs now (f\<lparr>years := Some y\<rparr>) = Inr yrs \<and> 0 \<le> yrs)"
proof -
  define days where "days = (now - (wall (published f) - off)) div 86400000000"
  have neg: "days < 0" using assms(3) by (simp add: days_def div_neg_pos_less0)
  have y: "calc_yrs now f = Inr (real_of_int days / 365.25)"
    using assms(1,2) by (simp add: calc_yrs_def years_since_def days_def)
  have lt: "real_of_int days / 365.25 < 0" using neg by simp
  then have rf: "calc_recency_factor (real_of_int days / 365.25) = 1"
    by (simp add: calc_recency_factor_def clamp01_def clamp_def min_def max_def)
  from y lt rf have 1: "\<exists>yrs. calc_yrs now f = Inr yrs \<and> yrs < 0 \<and> calc_recency_factor yrs = 1"
    by blast
  have rng: "\<And>s lvl expl c e. calc_score cfg now f = Inr (s, lvl, expl, c, e)
      \<Longrightarrow> 0 \<le> s \<and> s \<le> 100"
  proof -
    fix s lvl expl c e assume "calc_score cfg now f = Inr (s, lvl, expl, c, e)"
    then obtain b where "s = clamp01 b * 100" using calc_score_InrD by blast
    then show "0 \<le> s \<and> s \<le> 100" using clamp01_bounds [of b] by simp
  qed
  then have 2: "calc_score cfg now f = Inr (s, lvl, expl, c, e) \<longrightarrow> 0 \<le> s \<and> s \<le> 100"
    by blast
  have 3: "bonus_convertible cfg f \<longrightarrow>
         (\<exists>s lvl expl c e. calc_score cfg now f = Inr (s, lvl, expl, c, e)
            \<and> 0 \<le> s \<and> s \<le> 100)"
  proof
    assume "bonus_convertible cfg f"
    then obtain s lvl expl c e where r: "calc_score cfg now f = Inr (s, lvl, expl, c, e)"
      using calc_score_Inr [OF y, of cfg] by (auto simp: Let_def)
    with rng show "\<exists>s lvl expl c e. calc_score cfg now f = Inr (s, lvl, expl, c, e)
            \<and> 0 \<le> s \<and> s \<le> 100" by blast
  qed
  have 4: "\<forall>y. \<exists>yrs. calc_yrs now (f\<lparr>years := Some y\<rparr>) = Inr yrs \<and> 0 \<le> yrs"
    by (simp add: calc_yrs_def)
  from 1 2 3 4 show ?thesis by (intro conjI)
qed

theorem future_publication_witness:
  "years (finding_max 1000000) = None
   \<and> utcoffset (published (finding_max 1000000)) = Some 0
   \<and> 0 < wall (published (finding_max 1000000)) - 0
   \<and> bonus_convertible default_config (finding_max 1000000)
   \<and> (\<exists>yrs. calc_yrs 0 (finding_max 1000000) = Inr yrs \<and> yrs < 0
         \<and> calc_recency_factor yrs = 1)
   \<and> (\<exists>s lvl expl c e. calc_score default_config 0 (finding_max 1000000)
         = Inr (s, lvl, expl, c, e) \<and> 0 \<le> s \<and> s \<le> 100)"
proof -
  have h1: "years (finding_max 1000000) = None" by (simp add: finding_max_def)
  have h2: "utcoffset (published (finding_max 1000000)) = Some 0"
    by (simp add: finding_max_def)
  have h3: "0 < wall (published (finding_max 1000000)) - 0" by (simp add: finding_max_def)
  have b: "bonus_convertible default_config (finding_max 1000000)"
    by (rule bonus_convertible_default)
  show ?thesis
    using h1 h2 h3 b future_publication [OF h1 h2 h3, of default_config] by blast
qed

subsection \<open>Monotonicity of the score\<close>

lemma CRIT_WEIGHTS_mono: "Crit_rank c \<le> Crit_rank c' \<Longrightarrow> CRIT_WEIGHTS c \<le> CRIT_WEIGHTS c'"
  by (cases c; cases c') simp_all

lemma EXPO_WEIGHTS_mono:
  "Exposure_rank e \<le> Exposure_rank e' \<Longrightarrow> EXPO_WEIGHTS e \<le> EXPO_WEIGHTS e'"
  by (cases e; cases e') simp_all

lemma calc_recency_factor_antimono:
  "a' \<le> a \<Longrightarrow> calc_recency_factor a \<le> calc_recency_factor a'"
  unfolding calc_recency_factor_def
  by (intro clamp01_mono diff_left_mono) (simp add: clamp01_mono)

lemma score_le_base:
  assumes "calc_yrs now f = Inr a" and "calc_yrs now' g = Inr a'"
    and "bonus_convertible cfg f" and "bonus_convertible cfg g"
    and "calc_base cfg f (clamp01 (cvss f / 10))
           (CRIT_WEIGHTS (case asset_criticality f of None \<Rightarrow> DEFAULT_CRIT cfg | Some c \<Rightarrow> c))
           (EXPO_WEIGHTS (case exposure f of None \<Rightarrow> DEFAULT_EXPO cfg | Some e \<Rightarrow> e))
           (calc_recency_factor a)
         \<le> calc_base cfg g (clamp01 (cvss g / 10))
           (CRIT_WEIGHTS (case asset_criticality g of None \<Rightarrow> DEFAULT_CRIT cfg | Some c \<Rightarrow> c))
           (EXPO_WEIGHTS (case exposure g of None \<Rightarrow> DEFAULT_EXPO cfg | Some e \<Rightarrow> e))
           (calc_recency_factor a')"
  shows "score_le (calc_score cfg now f) (calc_score cfg now' g)"
proof -
  obtain x where rf: "calc_score cfg now f =
      Inr (clamp01 (calc_base cfg f (clamp01 (cvss f / 10))
           (CRIT_WEIGHTS (case asset_criticality f of None \<Rightarrow> DEFAULT_CRIT cfg | Some c \<Rightarrow> c))
           (EXPO_WEIGHTS (case exposure f of None \<Rightarrow> DEFAULT_EXPO cfg | Some e \<Rightarrow> e))
           (calc_recency_factor a)) * 100, x)"
    using calc_score_Inr [OF assms(1,3)] by (auto simp: Let_def)
  obtain x' where rg: "calc_score cfg now' g =
      Inr (clamp01 (calc_base cfg g (clamp01 (cvss g / 10))
           (CRIT_WEIGHTS (case asset_criticality g of None \<Rightarrow> DEFAULT_CRIT cfg | Some c \<Rightarrow> c))
           (EXPO_WEIGHTS (case exposure g of None \<Rightarrow> DEFAULT_EXPO cfg | Some e \<Rightarrow> e))
           (calc_recency_factor a')) * 100, x')"
    using calc_score_Inr [OF assms(2,4)] by (auto simp: Let_def)
  show ?thesis using clamp01_mono [OF assms(5)] by (simp add: rf rg score_le_def)
qed

text \<open>
  C5. On a finding that \<open>calc_score\<close> scores, with the other attributes, the
  configuration and the clock fixed, the score does not decrease when the CVSS value
  increases and the CVSS weight is not negative, when the criticality level rises and the
  criticality weight is not negative, when the exposure level rises and the exposure
  weight is not negative, when the age (given or derived) decreases and the recency weight
  is not negative, and when an exploit flag is set and its bonus is not negative and
  small enough for \<open>int(bonus*100)\<close> to be computed.
\<close>

theorem score_monotone:
  assumes "FindingIn_valid f" and "bonus_convertible cfg f"
  shows "(0 \<le> W_CVSS cfg \<and> cvss f \<le> v \<longrightarrow>
            score_le (calc_score cfg now f) (calc_score cfg now (f\<lparr>cvss := v\<rparr>)))
    \<and> (0 \<le> W_CRIT cfg
          \<and> Crit_rank (case asset_criticality f of None \<Rightarrow> DEFAULT_CRIT cfg | Some c \<Rightarrow> c)
              \<le> Crit_rank c' \<longrightarrow>
            score_le (calc_score cfg now f)
              (calc_score cfg now (f\<lparr>asset_criticality := Some c'\<rparr>)))
    \<and> (0 \<le> W_EXPO cfg
          \<and> Exposure_rank (case exposure f of None \<Rightarrow> DEFAULT_EXPO cfg | Some e \<Rightarrow> e)
              \<le> Exposure_rank e' \<longrightarrow>
            score_le (calc_score cfg now f) (calc_score cfg now (f\<lparr>exposure := Some e'\<rparr>)))
    \<and> (0 \<le> W_RECENCY cfg \<and> calc_yrs now f = Inr a
          \<and> calc_yrs now (f\<lparr>years := y', published := p'\<rparr>) = Inr a' \<and> a' \<le> a \<longrightarrow>
            score_le (calc_score cfg now f)
              (calc_score cfg now (f\<lparr>years := y', published := p'\<rparr>)))
    \<and> (0 \<le> B_EXPLOIT cfg \<and> B_EXPLOIT cfg * 100 < float_overflow \<longrightarrow>
            score_le (calc_score cfg now f)
              (calc_score cfg now (f\<lparr>has_known_exploit := True\<rparr>)))
    \<and> (0 \<le> B_ACTIVE cfg \<and> B_ACTIVE cfg * 100 < float_overflow \<longrightarrow>
            score_le (calc_score cfg now f)
              (calc_score cfg now (f\<lparr>is_actively_exploited := True\<rparr>)))"
proof -
  from assms(1) obtain yrs where y: "calc_yrs now f = Inr yrs"
    using calc_yrs_valid by blast
  note bf = assms(2)
  have bsame: "\<And>g. has_known_exploit g = has_known_exploit f
      \<Longrightarrow> is_actively_exploited g = is_actively_exploited f \<Longrightarrow> bonus_convertible cfg g"
    using bf by (simp add: bonus_convertible_def)
  have same: "\<And>g. years g = years f \<Longrightarrow> published g = published f \<Longrightarrow> calc_yrs now g = Inr yrs"
    using y by (auto simp: calc_yrs_def split: option.splits)
  have 1: "0 \<le> W_CVSS cfg \<and> cvss f \<le> v \<longrightarrow>
            score_le (calc_score cfg now f) (calc_score cfg now (f\<lparr>cvss := v\<rparr>))"
  proof
    assume h: "0 \<le> W_CVSS cfg \<and> cvss f \<le> v"
    then have "clamp01 (cvss f / 10) \<le> clamp01 (v / 10)" by (simp add: clamp01_mono)
    with h have "W_CVSS cfg * clamp01 (cvss f / 10) \<le> W_CVSS cfg * clamp01 (v / 10)"
      by (simp add: mult_left_mono)
    then show "score_le (calc_score cfg now f) (calc_score cfg now (f\<lparr>cvss := v\<rparr>))"
      by (intro score_le_base [OF y same bf bsame]) (simp_all add: calc_base_def Let_def)
  qed
  have 2: "0 \<le> W_CRIT cfg
          \<and> Crit_rank (case asset_criticality f of None \<Rightarrow> DEFAULT_CRIT cfg | Some c \<Rightarrow> c)
              \<le> Crit_rank c' \<longrightarrow>
            score_le (calc_score cfg now f)
              (calc_score cfg now (f\<lparr>asset_criticality := Some c'\<rparr>))"
  proof
    assume h: "0 \<le> W_CRIT cfg
          \<and> Crit_rank (case asset_criticality f of None \<Rightarrow> DEFAULT_CRIT cfg | Some c \<Rightarrow> c)
              \<le> Crit_rank c'"
    then have "W_CRIT cfg
          * CRIT_WEIGHTS (case asset_criticality f of None \<Rightarrow> DEFAULT_CRIT cfg | Some c \<Rightarrow> c)
        \<le> W_CRIT cfg * CRIT_WEIGHTS c'"
      by (simp add: mult_left_mono CRIT_WEIGHTS_mono)
    then show "score_le (calc_score cfg now f)
              (calc_score cfg now (f\<lparr>asset_criticality := Some c'\<rparr>))"
      by (intro score_le_base [OF y same bf bsame]) (simp_all add: calc_base_def Let_def)
  qed
  have 3: "0 \<le> W_EXPO cfg
          \<and> Exposure_rank (case exposure f of None \<Rightarrow> DEFAULT_EXPO cfg | Some e \<Rightarrow> e)
              \<le> Exposure_rank e' \<longrightarrow>
            score_le (calc_score cfg now f) (calc_score cfg now (f\<lparr>exposure := Some e'\<rparr>))"
  proof
    assume h: "0 \<le> W_EXPO cfg
          \<and> Exposure_rank (case exposure f of None \<Rightarrow> DEFAULT_EXPO cfg | Some e \<Rightarrow> e)
              \<le> Exposure_rank e'"
    then have "W_EXPO cfg
          * EXPO_WEIGHTS (case exposure f of None \<Rightarrow> DEFAULT_EXPO cfg | Some e \<Rightarrow> e)
        \<le> W_EXPO cfg * EXPO_WEIGHTS e'"
      by (simp add: mult_left_mono EXPO_WEIGHTS_mono)
    then show "score_le (calc_score cfg now f) (calc_score cfg now (f\<lparr>exposure := Some e'\<rparr>))"
      by (intro score_le_base [OF y same bf bsame]) (simp_all add: calc_base_def Let_def)
  qed
  have 4: "0 \<le> W_RECENCY cfg \<and> calc_yrs now f = Inr a
          \<and> calc_yrs now (f\<lparr>years := y', published := p'\<rparr>) = Inr a' \<and> a' \<le> a \<longrightarrow>
            score_le (calc_score cfg now f)
              (calc_score cfg now (f\<lparr>years := y', published := p'\<rparr>))"
  proof
    assume h: "0 \<le> W_RECENCY cfg \<and> calc_yrs now f = Inr a
          \<and> calc_yrs now (f\<lparr>years := y', published := p'\<rparr>) = Inr a' \<and> a' \<le> a"
    then have "W_RECENCY cfg * calc_recency_factor a \<le> W_RECENCY cfg * calc_recency_factor a'"
      by (simp add: mult_left_mono calc_recency_factor_antimono)
    moreover from h have ya: "calc_yrs now f = Inr a"
      and yb: "calc_yrs now (f\<lparr>years := y', published := p'\<rparr>) = Inr a'" by simp_all
    ultimately show "score_le (calc_score cfg now f)
              (calc_score cfg now (f\<lparr>years := y', published := p'\<rparr>))"
      by (intro score_le_base [OF ya yb bf bsame]) (simp_all add: calc_base_def Let_def)
  qed
  have 5: "0 \<le> B_EXPLOIT cfg \<and> B_EXPLOIT cfg * 100 < float_overflow \<longrightarrow>
            score_le (calc_score cfg now f)
              (calc_score cfg now (f\<lparr>has_known_exploit := True\<rparr>))"
  proof
    assume h: "0 \<le> B_EXPLOIT cfg \<and> B_EXPLOIT cfg * 100 < float_overflow"
    then have bg: "bonus_convertible cfg (f\<lparr>has_known_exploit := True\<rparr>)"
      using bf by (simp add: bonus_convertible_def abs_if)
    from h show "score_le (calc_score cfg now f)
              (calc_score cfg now (f\<lparr>has_known_exploit := True\<rparr>))"
      by (intro score_le_base [OF y same bf bg]) (simp_all add: calc_base_def Let_def)
  qed
  have 6: "0 \<le> B_ACTIVE cfg \<and> B_ACTIVE cfg * 100 < float_overflow \<longrightarrow>
            score_le (calc_score cfg now f)
              (calc_score cfg now (f\<lparr>is_actively_exploited := True\<rparr>))"
  proof
    assume h: "0 \<le> B_ACTIVE cfg \<and> B_ACTIVE cfg * 100 < float_overflow"
    then have bg: "bonus_convertible cfg (f\<lparr>is_actively_exploited := True\<rparr>)"
      using bf by (simp add: bonus_convertible_def abs_if)
    from h show "score_le (calc_score cfg now f)
              (calc_score cfg now (f\<lparr>is_actively_exploited := True\<rparr>))"
      by (intro score_le_base [OF y same bf bg]) (simp_all add: calc_base_def Let_def)
  qed
  from 1 2 3 4 5 6 show ?thesis by (intro conjI)
qed

theorem score_monotone_witness:
  "FindingIn_valid (finding_plain 2) \<and> bonus_convertible default_config (finding_plain 2)
   \<and> 0 \<le> W_CVSS default_config \<and> cvss (finding_plain 2) \<le> 5
   \<and> score_le (calc_score default_config 0 (finding_plain 2))
        (calc_score default_config 0 ((finding_plain 2)\<lparr>cvss := 5\<rparr>))
   \<and> 0 \<le> W_CRIT default_config
   \<and> Crit_rank (case asset_criticality (finding_plain 2) of
         None \<Rightarrow> DEFAULT_CRIT default_config | Some c \<Rightarrow> c) \<le> Crit_rank alta
   \<and> score_le (calc_score default_config 0 (finding_plain 2))
        (calc_score default_config 0 ((finding_plain 2)\<lparr>asset_criticality := Some alta\<rparr>))
   \<and> 0 \<le> W_EXPO default_config
   \<and> Exposure_rank (case exposure (finding_plain 2) of
         None \<Rightarrow> DEFAULT_EXPO default_config | Some e \<Rightarrow> e) \<le> Exposure_rank internet
   \<and> score_le (calc_score default_config 0 (finding_plain 2))
        (calc_score default_config 0 ((finding_plain 2)\<lparr>exposure := Some internet\<rparr>))
   \<and> 0 \<le> W_RECENCY default_config
   \<and> calc_yrs 0 (finding_plain 2) = Inr 4
   \<and> calc_yrs 0 ((finding_plain 2)\<lparr>years := Some 1, published := published (finding_plain 2)\<rparr>)
        = Inr 1
   \<and> score_le (calc_score default_config 0 (finding_plain 2))
        (calc_score default_config 0
           ((finding_plain 2)\<lparr>years := Some 1, published := published (finding_plain 2)\<rparr>))
   \<and> 0 \<le> B_EXPLOIT default_config \<and> B_EXPLOIT default_config * 100 < float_overflow
   \<and> score_le (calc_score default_config 0 (finding_plain 2))
        (calc_score default_config 0 ((finding_plain 2)\<lparr>has_known_exploit := True\<rparr>))
   \<and> 0 \<le> B_ACTIVE default_config \<and> B_ACTIVE default_config * 100 < float_overflow
   \<and> score_le (calc_score default_config 0 (finding_plain 2))
        (calc_score default_config 0 ((finding_plain 2)\<lparr>is_actively_exploited := True\<rparr>))"
proof -
  have v: "FindingIn_valid (finding_plain 2)"
    by (simp add: FindingIn_valid_def finding_plain_def)
  have w: "0 \<le> W_CVSS default_config" "0 \<le> W_CRIT default_config" "0 \<le> W_EXPO default_config"
    "0 \<le> W_RECENCY default_config" "0 \<le> B_EXPLOIT default_config" "0 \<le> B_ACTIVE default_config"
    by (simp_all add: default_config_def)
  have b: "bonus_convertible default_config (finding_plain 2)"
    by (rule bonus_convertible_default)
  have o: "B_EXPLOIT default_config * 100 < float_overflow"
    "B_ACTIVE default_config * 100 < float_overflow"
    using float_overflow_large by (simp_all add: default_config_def)
  have h1: "cvss (finding_plain 2) \<le> 5" by (simp add: finding_plain_def)
  have h2: "Crit_rank (case asset_criticality (finding_plain 2) of
         None \<Rightarrow> DEFAULT_CRIT default_config | Some c \<Rightarrow> c) \<le> Crit_rank alta"
    by (simp add: finding_plain_def default_config_def)
  have h3: "Exposure_rank (case exposure (finding_plain 2) of
         None \<Rightarrow> DEFAULT_EXPO default_config | Some e \<Rightarrow> e) \<le> Exposure_rank internet"
    by (simp add: finding_plain_def default_config_def)
  have h4: "calc_yrs 0 (finding_plain 2) = Inr 4"
    "calc_yrs 0 ((finding_plain 2)\<lparr>years := Some 1, published := published (finding_plain 2)\<rparr>)
        = Inr 1" "(1::real) \<le> 4"
    by (simp_all add: calc_yrs_def finding_plain_def)
  note m = score_monotone [OF v b, where now = 0 and v = 5
      and c' = alta and e' = internet and a = 4 and y' = "Some 1"
      and p' = "published (finding_plain 2)" and a' = 1]
  show ?thesis using v b w o h1 h2 h3 h4 m by blast
qed

lemma huge_flag_raises:
  "calc_score config_huge 0 ((finding_plain 0)\<lparr>has_known_exploit := True\<rparr>)
     = Inl OverflowError"
proof -
  have y: "calc_yrs 0 ((finding_plain 0)\<lparr>has_known_exploit := True\<rparr>) = Inr 4"
    by (simp add: calc_yrs_def finding_plain_def)
  have n: "\<not> bonus_convertible config_huge ((finding_plain 0)\<lparr>has_known_exploit := True\<rparr>)"
    by (simp add: bonus_convertible_def config_huge_def default_config_def finding_plain_def
        float_overflow_def)
  show ?thesis by (rule calc_score_Inl [OF y n])
qed

text \<open>
  Without the condition on the weight the score can decrease: a process started with
  \<open>WZ_W_CVSS=-0.5\<close> scores \<open>finding_plain 0\<close> at 25 and the same finding with CVSS 4
  at 5. Without the bound on the bonus there may be no score: a process started with
  \<open>WZ_B_EXPLOIT=1e307\<close> scores \<open>finding_plain 0\<close> at 25 and raises once the flag of a
  known exploit is set.
\<close>

theorem score_monotone_counterexample:
  "map_sum id fst (calc_score config_negative 0 (finding_plain 0)) = Inr 25
   \<and> map_sum id fst (calc_score config_negative 0 ((finding_plain 0)\<lparr>cvss := 4\<rparr>)) = Inr 5
   \<and> \<not> score_le (calc_score config_negative 0 (finding_plain 0))
          (calc_score config_negative 0 ((finding_plain 0)\<lparr>cvss := 4\<rparr>))
   \<and> 0 \<le> B_EXPLOIT config_huge
   \<and> map_sum id fst (calc_score config_huge 0 (finding_plain 0)) = Inr 25
   \<and> calc_score config_huge 0 ((finding_plain 0)\<lparr>has_known_exploit := True\<rparr>)
       = Inl OverflowError
   \<and> \<not> score_le (calc_score config_huge 0 (finding_plain 0))
          (calc_score config_huge 0 ((finding_plain 0)\<lparr>has_known_exploit := True\<rparr>))"
proof -
  have a: "map_sum id fst (calc_score config_negative 0 (finding_plain 0)) = Inr 25
   \<and> map_sum id fst (calc_score config_negative 0 ((finding_plain 0)\<lparr>cvss := 4\<rparr>)) = Inr 5
   \<and> \<not> score_le (calc_score config_negative 0 (finding_plain 0))
          (calc_score config_negative 0 ((finding_plain 0)\<lparr>cvss := 4\<rparr>))"
    by (simp add: eval_defs finding_plain_def config_negative_def score_le_def load_config_def
      env_float_def env_enum_def float_sample_def)
  have b: "0 \<le> B_EXPLOIT config_huge" by (simp add: config_huge_def)
  have c: "map_sum id fst (calc_score config_huge 0 (finding_plain 0)) = Inr 25"
    by (simp add: eval_defs finding_plain_def config_huge_def)
  have d: "\<not> score_le (calc_score config_huge 0 (finding_plain 0))
          (calc_score config_huge 0 ((finding_plain 0)\<lparr>has_known_exploit := True\<rparr>))"
    by (simp add: huge_flag_raises score_le_def split: sum.splits prod.splits)
  from a b c huge_flag_raises d show ?thesis by (intro conjI) (elim conjE | assumption)+
qed

subsection \<open>Malformed overrides\<close>

lemma env_float_fallback:
  "env name = Some s \<Longrightarrow> isl (py_float s) \<Longrightarrow> env_float py_float env name d = d"
  by (cases "py_float s") (simp_all add: env_float_def)

lemma env_enum_fallback:
  "env name = Some s \<Longrightarrow> isl (cls s) \<Longrightarrow> env_enum env name cls d = d"
  by (cases "cls s") (simp_all add: env_enum_def)

lemma Crit_of_no_member:
  assumes "\<forall>c. Crit_value c \<noteq> s"
  shows "isl (Crit_of s)"
proof -
  have "s \<noteq> ''baixa''" using assms [rule_format, of baixa] by (simp only: Crit_value.simps) blast
  moreover have "s \<noteq> ''media''" using assms [rule_format, of media] by (simp only: Crit_value.simps) blast
  moreover have "s \<noteq> ''alta''" using assms [rule_format, of alta] by (simp only: Crit_value.simps) blast
  moreover have "s \<noteq> ''critica''" using assms [rule_format, of critica] by (simp only: Crit_value.simps) blast
  ultimately show ?thesis by (simp only: Crit_of_def if_False sum.disc)
qed

lemma Exposure_of_no_member:
  assumes "\<forall>e. Exposure_value e \<noteq> s"
  shows "isl (Exposure_of s)"
proof -
  have "s \<noteq> ''internet''" using assms [rule_format, of internet] by (simp only: Exposure_value.simps) blast
  moreover have "s \<noteq> ''interna''" using assms [rule_format, of interna] by (simp only: Exposure_value.simps) blast
  moreover have "s \<noteq> ''isolada''" using assms [rule_format, of isolada] by (simp only: Exposure_value.simps) blast
  ultimately show ?thesis by (simp only: Exposure_of_def if_False sum.disc)
qed

lemma load_config_sel:
  "W_CVSS (load_config py_float env) = env_float py_float env ''WZ_W_CVSS'' 0.50"
  "W_CRIT (load_config py_float env) = env_float py_float env ''WZ_W_CRIT'' 0.20"
  "W_EXPO (load_config py_float env) = env_float py_float env ''WZ_W_EXPO'' 0.15"
  "W_RECENCY (load_config py_float env) = env_float py_float env ''WZ_W_RECENCY'' 0.10"
  "B_EXPLOIT (load_config py_float env) = env_float py_float env ''WZ_B_EXPLOIT'' 0.15"
  "B_ACTIVE (load_config py_float env) = env_float py_float env ''WZ_B_ACTIVE'' 0.25"
  "DEFAULT_CRIT (load_config py_float env) = env_enum env ''WZ_DEFAULT_CRIT'' Crit_of media"
  "DEFAULT_EXPO (load_config py_float env) = env_enum env ''WZ_DEFAULT_EXPO'' Exposure_of interna"
  by (simp_all only: load_config_def config.select_convs)

text \<open>
  C8. An override that is set and malformed leaves the built-in default in place: a
  weight or bonus whose string \<open>float\<close> rejects, a default criticality or exposure whose
  string is the value of no member. \<open>load_config\<close> has no failing branch.
\<close>

theorem env_override_fallback:
  "(env ''WZ_W_CVSS'' = Some s1 \<and> isl (py_float s1) \<longrightarrow>
       W_CVSS (load_config py_float env) = 0.50)
   \<and> (env ''WZ_W_CRIT'' = Some s2 \<and> isl (py_float s2) \<longrightarrow>
       W_CRIT (load_config py_float env) = 0.20)
   \<and> (env ''WZ_W_EXPO'' = Some s3 \<and> isl (py_float s3) \<longrightarrow>
       W_EXPO (load_config py_float env) = 0.15)
   \<and> (env ''WZ_W_RECENCY'' = Some s4 \<and> isl (py_float s4) \<longrightarrow>
       W_RECENCY (load_config py_float env) = 0.10)
   \<and> (env ''WZ_B_EXPLOIT'' = Some s5 \<and> isl (py_float s5) \<longrightarrow>
       B_EXPLOIT (load_config py_float env) = 0.15)
   \<and> (env ''WZ_B_ACTIVE'' = Some s6 \<and> isl (py_float s6) \<longrightarrow>
       B_ACTIVE (load_config py_float env) = 0.25)
   \<and> (env ''WZ_DEFAULT_CRIT'' = Some s7 \<and> (\<forall>c. Crit_value c \<noteq> s7) \<longrightarrow>
       DEFAULT_CRIT (load_config py_float env) = media)
   \<and> (env ''WZ_DEFAULT_EXPO'' = Some s8 \<and> (\<forall>e. Exposure_value e \<noteq> s8) \<longrightarrow>
       DEFAULT_EXPO (load_config py_float env) = interna)"
  unfolding load_config_sel
  by (intro conjI impI)
    (simp_all add: env_float_fallback env_enum_fallback Crit_of_no_member
       Exposure_of_no_member)

theorem env_override_fallback_witness:
  "environ_malformed ''WZ_W_CVSS'' = Some ''half'' \<and> isl (float_sample ''half'')
   \<and> W_CVSS (load_config float_sample environ_malformed) = 0.50
   \<and> environ_malformed ''WZ_W_CRIT'' = Some ''0,2'' \<and> isl (float_sample ''0,2'')
   \<and> W_CRIT (load_config float_sample environ_malformed) = 0.20
   \<and> environ_malformed ''WZ_W_EXPO'' = Some [] \<and> isl (float_sample [])
   \<and> W_EXPO (load_config float_sample environ_malformed) = 0.15
   \<and> environ_malformed ''WZ_W_RECENCY'' = Some ''ten%'' \<and> isl (float_sample ''ten%'')
   \<and> W_RECENCY (load_config float_sample environ_malformed) = 0.10
   \<and> environ_malformed ''WZ_B_EXPLOIT'' = Some ''+'' \<and> isl (float_sample ''+'')
   \<and> B_EXPLOIT (load_config float_sample environ_malformed) = 0.15
   \<and> environ_malformed ''WZ_B_ACTIVE'' = Some ''0.2.5'' \<and> isl (float_sample ''0.2.5'')
   \<and> B_ACTIVE (load_config float_sample environ_malformed) = 0.25
   \<and> environ_malformed ''WZ_DEFAULT_CRIT'' = Some ''CRITICA''
   \<and> (\<forall>c. Crit_value c \<noteq> ''CRITICA'')
   \<and> DEFAULT_CRIT (load_config float_sample environ_malformed) = media
   \<and> environ_malformed ''WZ_DEFAULT_EXPO'' = Some ''public''
   \<and> (\<forall>e. Exposure_value e \<noteq> ''public'')
   \<and> DEFAULT_EXPO (load_config float_sample environ_malformed) = interna"
proof -
  have e: "environ_malformed ''WZ_W_CVSS'' = Some ''half''"
    "environ_malformed ''WZ_W_CRIT'' = Some ''0,2''"
    "environ_malformed ''WZ_W_EXPO'' = Some []"
    "environ_malformed ''WZ_W_RECENCY'' = Some ''ten%''"
    "environ_malformed ''WZ_B_EXPLOIT'' = Some ''+''"
    "environ_malformed ''WZ_B_ACTIVE'' = Some ''0.2.5''"
    "environ_malformed ''WZ_DEFAULT_CRIT'' = Some ''CRITICA''"
    "environ_malformed ''WZ_DEFAULT_EXPO'' = Some ''public''"
    by (simp_all add: environ_malformed_def)
  have p: "isl (float_sample ''half'')" "isl (float_sample ''0,2'')" "isl (float_sample [])"
    "isl (float_sample ''ten%'')" "isl (float_sample ''+'')" "isl (float_sample ''0.2.5'')"
    by (simp_all add: float_sample_def)
  have c: "\<forall>c. Crit_value c \<noteq> ''CRITICA''"
  proof
    fix c show "Crit_value c \<noteq> ''CRITICA''" by (cases c) simp_all
  qed
  have x: "\<forall>e. Exposure_value e \<noteq> ''public''"
  proof
    fix e show "Exposure_value e \<noteq> ''public''" by (cases e) simp_all
  qed
  note m = env_override_fallback [where env = environ_malformed and py_float = float_sample
      and ?s1.0 = "''half''" and ?s2.0 = "''0,2''" and ?s3.0 = "[]" and ?s4.0 = "''ten%''"
      and ?s5.0 = "''+''" and ?s6.0 = "''0.2.5''" and ?s7.0 = "''CRITICA''"
      and ?s8.0 = "''public''"]
  show ?thesis using e p c x m by blast
qed

subsection \<open>The compatibility endpoint\<close>

lemma force_tz_aware: "utcoffset v \<noteq> None \<Longrightarrow> force_tz v = v"
  by (simp add: force_tz_def)

lemma score_endpoint_InrD:
  assumes "score_endpoint cfg now f = Inr out"
  shows "work_order out = None \<and> asset_criticality out \<noteq> None \<and> exposure out \<noteq> None"
  using assms
  by (auto simp: score_endpoint_def FindingOut_init_def split: sum.splits if_splits)

lemma score_endpoint_Inr:
  assumes "FindingIn_valid f" and "bonus_convertible cfg f"
  shows "\<exists>out. score_endpoint cfg now f = Inr out"
proof -
  from assms(1) obtain yrs where y: "calc_yrs now f = Inr yrs" using calc_yrs_valid by blast
  obtain s lvl expl c e where "calc_score cfg now f = Inr (s, lvl, expl, c, e)"
    using calc_score_Inr [OF y assms(2)] by (auto simp: Let_def)
  then show ?thesis using assms(1)
    by (simp add: score_endpoint_def FindingOut_init_def FindingIn_valid_def)
qed

text \<open>
  C9. For a request that \<open>/cve/check\<close> accepts and a request to \<open>/score\<close> with the same
  fields, read at the same instant, both endpoints return the same result: the same
  \<open>FindingOut\<close> (score, tier, explanation, resolved criticality and exposure, and no
  \<open>work_order\<close>) whenever the conversions of the bonuses succeed, the same exception
  otherwise.
\<close>

theorem cve_check_same_as_score:
  assumes "CVECheckIn_valid inp"
    and "id_f f = c_id inp" and "product f = c_product inp" and "host f = c_host inp"
    and "agent f = c_agent inp" and "cvss f = c_cvss inp" and "published f = c_published inp"
    and "summary f = c_summary inp" and "asset_criticality f = c_asset_criticality inp"
    and "has_known_exploit f = c_has_known_exploit inp"
    and "is_actively_exploited f = c_is_actively_exploited inp"
    and "exposure f = c_exposure inp" and "years f = c_years inp"
  shows "FindingIn_valid f
    \<and> cve_check_endpoint cfg now inp = score_endpoint cfg now f
    \<and> (\<forall>out. score_endpoint cfg now f = Inr out \<longrightarrow>
          work_order out = None \<and> asset_criticality out \<noteq> None \<and> exposure out \<noteq> None)
    \<and> (bonus_convertible cfg f \<longrightarrow> (\<exists>out. score_endpoint cfg now f = Inr out))"
proof -
  from assms have v: "FindingIn_valid f"
    by (simp add: CVECheckIn_valid_def FindingIn_valid_def)
  have tz: "force_tz (c_published inp) = c_published inp"
    using assms(1) by (simp add: CVECheckIn_valid_def force_tz_aware)
  have "as_finding inp = Inr f"
    using assms tz by (simp add: as_finding_def CVECheckIn_valid_def)
  then have eq: "cve_check_endpoint cfg now inp = score_endpoint cfg now f"
    by (simp add: cve_check_endpoint_def score_endpoint_def)
  have d: "\<forall>out. score_endpoint cfg now f = Inr out \<longrightarrow>
          work_order out = None \<and> asset_criticality out \<noteq> None \<and> exposure out \<noteq> None"
    using score_endpoint_InrD by blast
  have r: "bonus_convertible cfg f \<longrightarrow> (\<exists>out. score_endpoint cfg now f = Inr out)"
    using score_endpoint_Inr [OF v] by blast
  from v eq d r show ?thesis by (intro conjI)
qed

theorem cve_check_same_as_score_witness:
  "CVECheckIn_valid check_old
   \<and> id_f (finding_old 7) = c_id check_old \<and> product (finding_old 7) = c_product check_old
   \<and> host (finding_old 7) = c_host check_old \<and> agent (finding_old 7) = c_agent check_old
   \<and> cvss (finding_old 7) = c_cvss check_old
   \<and> published (finding_old 7) = c_published check_old
   \<and> summary (finding_old 7) = c_summary check_old
   \<and> asset_criticality (finding_old 7) = c_asset_criticality check_old
   \<and> has_known_exploit (finding_old 7) = c_has_known_exploit check_old
   \<and> is_actively_exploited (finding_old 7) = c_is_actively_exploited check_old
   \<and> exposure (finding_old 7) = c_exposure check_old \<and> years (finding_old 7) = c_years check_old
   \<and> bonus_convertible default_config (finding_old 7)
   \<and> cve_check_endpoint default_config 0 check_old
       = score_endpoint default_config 0 (finding_old 7)
   \<and> (\<exists>out. score_endpoint default_config 0 (finding_old 7) = Inr out
         \<and> work_order out = None \<and> risk_score out = 70 \<and> risk_level out = ''HIGH'')"
proof -
  have v: "CVECheckIn_valid check_old" by (simp add: CVECheckIn_valid_def check_old_def)
  have h: "id_f (finding_old 7) = c_id check_old" "product (finding_old 7) = c_product check_old"
    "host (finding_old 7) = c_host check_old" "agent (finding_old 7) = c_agent check_old"
    "cvss (finding_old 7) = c_cvss check_old"
    "published (finding_old 7) = c_published check_old"
    "summary (finding_old 7) = c_summary check_old"
    "asset_criticality (finding_old 7) = c_asset_criticality check_old"
    "has_known_exploit (finding_old 7) = c_has_known_exploit check_old"
    "is_actively_exploited (finding_old 7) = c_is_actively_exploited check_old"
    "exposure (finding_old 7) = c_exposure check_old" "years (finding_old 7) = c_years check_old"
    by (simp_all add: finding_old_def check_old_def)
  have b: "bonus_convertible default_config (finding_old 7)"
    by (rule bonus_convertible_default)
  note m = cve_check_same_as_score [OF v h, of default_config 0]
  have r: "\<exists>out. score_endpoint default_config 0 (finding_old 7) = Inr out
         \<and> work_order out = None \<and> risk_score out = 70 \<and> risk_level out = ''HIGH''"
    by (simp add: eval_defs finding_old_def)
  show ?thesis using v h b m r by blast
qed

subsection \<open>Batch ranking\<close>

text \<open>What the loop of \<open>score_batch\<close> has built when it ends, and when it ends.\<close>

lemma level_rank_calc_level: "\<exists>lr. level_rank (calc_level s) = Inr lr"
  by (simp add: calc_level_def level_rank_def)

lemma rank_item_InrD:
  assumes "rank_item cfg now idx item = Inr t"
  shows "\<exists>s lvl expl c e lr res.
     calc_score cfg now item = Inr (s, lvl, expl, c, e) \<and> level_rank lvl = Inr lr
     \<and> t = (lr, - s, - (if is_actively_exploited item then 1 else 0),
              - (if has_known_exploit item then 1 else 0), - EXPO_WEIGHTS e, - CRIT_WEIGHTS c,
              idx, res)
     \<and> id_f res = id_f item \<and> work_order res = None"
  using assms
  by (auto simp: rank_item_def Let_def FindingOut_init_def split: sum.splits if_splits)

lemma rank_item_res:
  assumes "rank_item cfg now idx item = Inr t"
  shows "idx_of t = idx \<and> id_f (res_of t) = id_f item \<and> work_order (res_of t) = None"
  using rank_item_InrD [OF assms] by (auto simp: idx_of_def res_of_def)

lemma rank_item_valid:
  assumes "FindingIn_valid item" and "bonus_convertible cfg item"
  shows "\<exists>t. rank_item cfg now idx item = Inr t"
proof -
  from assms(1) obtain yrs where y: "calc_yrs now item = Inr yrs"
    using calc_yrs_valid by blast
  obtain s lvl expl c e where r: "calc_score cfg now item = Inr (s, lvl, expl, c, e)"
    using calc_score_Inr [OF y assms(2)] by (auto simp: Let_def)
  then have "lvl = calc_level s" using calc_score_InrD by blast
  then obtain lr where l: "level_rank lvl = Inr lr" using level_rank_calc_level by blast
  from assms(1) obtain res where f: "FindingOut_init item c e (round2 s) lvl expl = Inr res"
    by (simp add: FindingOut_init_def FindingIn_valid_def)
  show ?thesis by (simp add: rank_item_def r l f Let_def)
qed

lemma ranked_from_InrD:
  assumes "ranked_from cfg now k items = Inr ranked"
  shows "length ranked = length items
     \<and> (\<forall>i < length items. rank_item cfg (now (k + i)) (k + i) (items ! i) = Inr (ranked ! i))"
  using assms
proof (induction items arbitrary: k ranked)
  case Nil
  then show ?case by simp
next
  case (Cons item items)
  from Cons.prems obtain t rest where
    t: "rank_item cfg (now k) k item = Inr t"
    and r: "ranked_from cfg now (Suc k) items = Inr rest"
    and e: "ranked = t # rest"
    by (auto split: sum.splits)
  from Cons.IH [OF r] have ih: "length rest = length items"
    "\<forall>i < length items. rank_item cfg (now (Suc k + i)) (Suc k + i) (items ! i) = Inr (rest ! i)"
    by simp_all
  have "\<forall>i < length (item # items).
      rank_item cfg (now (k + i)) (k + i) ((item # items) ! i) = Inr (ranked ! i)"
  proof (intro allI impI)
    fix i assume "i < length (item # items)"
    then show "rank_item cfg (now (k + i)) (k + i) ((item # items) ! i) = Inr (ranked ! i)"
      using t ih(2) e by (cases i) simp_all
  qed
  then show ?case using ih(1) e by simp
qed

lemma ranked_from_valid:
  assumes "\<forall>item \<in> set items. FindingIn_valid item \<and> bonus_convertible cfg item"
  shows "\<exists>ranked. ranked_from cfg now k items = Inr ranked"
  using assms
proof (induction items arbitrary: k)
  case Nil
  then show ?case by simp
next
  case (Cons item items)
  from Cons.prems obtain t where t: "rank_item cfg (now k) k item = Inr t"
    using rank_item_valid [of item cfg "now k" k] by auto
  from Cons.prems have "\<forall>item \<in> set items. FindingIn_valid item \<and> bonus_convertible cfg item"
    by simp
  from Cons.IH [OF this, of "Suc k"] obtain ranked where
    "ranked_from cfg now (Suc k) items = Inr ranked" by blast
  with t show ?case by simp
qed

lemma assign_work_order_length: "length (assign_work_order i xs) = length xs"
  by (induction xs arbitrary: i) simp_all

lemma assign_work_order_id: "map id_f (assign_work_order i xs) = map id_f xs"
  by (induction xs arbitrary: i) simp_all

lemma assign_work_order_ranks:
  "map work_order (assign_work_order i xs) = map (\<lambda>n. Some (i + int n)) [0..<length xs]"
proof (induction xs arbitrary: i)
  case Nil
  then show ?case by simp
next
  case (Cons x xs)
  have "map (\<lambda>n. Some (i + int n)) [0..<length (x # xs)]
      = Some i # map (\<lambda>n. Some (i + 1 + int n)) [0..<length xs]"
    by (simp add: upt_conv_Cons map_Suc_upt [symmetric] del: upt_Suc)
  then show ?case using Cons.IH [of "i + 1"] by simp
qed



lemma ranked_from_idx:
  assumes "ranked_from cfg now k items = Inr ranked" "length ranked = length items"
    "\<forall>i < length items. rank_item cfg (now (k + i)) (k + i) (items ! i) = Inr (ranked ! i)"
  shows "map idx_of ranked = [k..<k + length items]
    \<and> map (\<lambda>t. id_f (res_of t)) ranked = map id_f items"
proof -
  have "\<forall>i < length items. idx_of (ranked ! i) = k + i \<and> id_f (res_of (ranked ! i)) = id_f (items ! i)"
    using assms(3) rank_item_res by blast
  then show ?thesis using assms(2)
    by (auto intro!: nth_equalityI)
qed


lemma ev_batch:
  "\<exists>out. score_batch default_config (\<lambda>i. 0) batch_sample = Inr out
     \<and> map id_f out = [''CVE-2024-0001'', ''CVE-2014-0002'', ''CVE-2025-0003'', ''CVE-2025-0003'']
     \<and> map risk_score out = [100, 70, 35, 35]
     \<and> map risk_level out = [''CRITICAL'', ''HIGH'', ''LOW'', ''LOW'']
     \<and> map work_order out = [Some 1, Some 2, Some 3, Some 4]"
  by (simp add: score_batch_def sorted_ranked_def batch_sample_def rank_item_def level_rank_def
      eval_defs py_int_15 py_int_25 finding_plain_def finding_max_def finding_old_def key_of_def res_of_def)

lemma batch_sample_valid:
  "\<forall>item \<in> set batch_sample. FindingIn_valid item \<and> bonus_convertible default_config item"
  by (simp add: batch_sample_def FindingIn_valid_def finding_plain_def finding_max_def
      finding_old_def bonus_convertible_default)

text \<open>
  C3. For a batch of \<open>N\<close> findings, what \<open>/score/batch\<close> returns has \<open>N\<close> results whose
  identifiers are, as a multiset, those of the input, and whose \<open>work_order\<close> values are
  1, 2, ..., \<open>N\<close> in the order of the output: each of 1..\<open>N\<close> once and nothing else. It
  returns on every batch of validated findings for which the conversions of the bonuses
  succeed.
\<close>

theorem batch_permutation:
  "(score_batch cfg now items = Inr out \<longrightarrow>
      length out = length items
      \<and> mset (map id_f out) = mset (map id_f items)
      \<and> map work_order out = map (\<lambda>n. Some (int n)) [1..<Suc (length items)]
      \<and> distinct (map work_order out)
      \<and> set (map work_order out) = (\<lambda>n. Some (int n)) ` {1..length items})
   \<and> ((\<forall>item \<in> set items. FindingIn_valid item \<and> bonus_convertible cfg item) \<longrightarrow>
        (\<exists>out. score_batch cfg now items = Inr out))"
proof -
  have 1: "score_batch cfg now items = Inr out \<longrightarrow>
      length out = length items
      \<and> mset (map id_f out) = mset (map id_f items)
      \<and> map work_order out = map (\<lambda>n. Some (int n)) [1..<Suc (length items)]
      \<and> distinct (map work_order out)
      \<and> set (map work_order out) = (\<lambda>n. Some (int n)) ` {1..length items}"
  proof
    assume sb: "score_batch cfg now items = Inr out"
    then obtain ranked where rf: "ranked_from cfg now 0 items = Inr ranked"
      and out: "out = assign_work_order 1 (map res_of (sort_key key_of ranked))"
      by (auto simp: score_batch_def sorted_ranked_def split: sum.splits)
    note r = ranked_from_InrD [OF rf]
    have len: "length out = length items"
      using r by (simp add: out assign_work_order_length)
    have ids: "map (\<lambda>t. id_f (res_of t)) ranked = map id_f items"
      using ranked_from_idx [OF rf] r by blast
    have "mset (map id_f out) = mset (map (\<lambda>t. id_f (res_of t)) (sort_key key_of ranked))"
      by (simp add: out assign_work_order_id comp_def)
    also have "\<dots> = mset (map (\<lambda>t. id_f (res_of t)) ranked)"
      by (simp only: mset_map mset_sort)
    finally have perm: "mset (map id_f out) = mset (map id_f items)" using ids by simp
    have "map work_order out = map (\<lambda>n. Some (1 + int n)) [0..<length items]"
      using r by (simp add: out assign_work_order_ranks)
    also have "\<dots> = map (\<lambda>n. Some (int n)) (map Suc [0..<length items])"
      by (simp add: comp_def add.commute)
    also have "\<dots> = map (\<lambda>n. Some (int n)) [1..<Suc (length items)]"
      by (simp only: map_Suc_upt One_nat_def)
    finally have ranks:
      "map work_order out = map (\<lambda>n. Some (int n)) [1..<Suc (length items)]" .
    have dist: "distinct (map work_order out)"
      unfolding ranks by (simp add: distinct_map inj_on_def)
    have st: "set (map work_order out) = (\<lambda>n. Some (int n)) ` {1..length items}"
      unfolding ranks by (simp only: set_map set_upt atLeastLessThanSuc_atLeastAtMost)
    from len perm ranks dist st show "length out = length items
      \<and> mset (map id_f out) = mset (map id_f items)
      \<and> map work_order out = map (\<lambda>n. Some (int n)) [1..<Suc (length items)]
      \<and> distinct (map work_order out)
      \<and> set (map work_order out) = (\<lambda>n. Some (int n)) ` {1..length items}"
      by (intro conjI)
  qed
  have 2: "(\<forall>item \<in> set items. FindingIn_valid item \<and> bonus_convertible cfg item) \<longrightarrow>
        (\<exists>out. score_batch cfg now items = Inr out)"
  proof
    assume "\<forall>item \<in> set items. FindingIn_valid item \<and> bonus_convertible cfg item"
    from ranked_from_valid [OF this, of now 0] obtain ranked where
      "ranked_from cfg now 0 items = Inr ranked" by blast
    then show "\<exists>out. score_batch cfg now items = Inr out"
      by (simp add: score_batch_def sorted_ranked_def)
  qed
  from 1 2 show ?thesis by (rule conjI)
qed

theorem batch_permutation_witness:
  "list_all (\<lambda>item. FindingIn_valid item \<and> bonus_convertible default_config item) batch_sample
   \<and> (\<exists>out. score_batch default_config (\<lambda>i. 0) batch_sample = Inr out
        \<and> length out = length batch_sample
        \<and> mset (map id_f out) = mset (map id_f batch_sample)
        \<and> map work_order out = map (\<lambda>n. Some (int n)) [1..<Suc (length batch_sample)]
        \<and> map id_f out
            = [''CVE-2024-0001'', ''CVE-2014-0002'', ''CVE-2025-0003'', ''CVE-2025-0003'']
        \<and> map work_order out = [Some 1, Some 2, Some 3, Some 4])"
proof -
  have v: "\<forall>item \<in> set batch_sample.
      FindingIn_valid item \<and> bonus_convertible default_config item"
    by (rule batch_sample_valid)
  have "\<exists>out. score_batch default_config (\<lambda>i. 0) batch_sample = Inr out"
    using batch_permutation [of default_config "\<lambda>i. 0" batch_sample, THEN conjunct2] v
    by (rule mp)
  then obtain out where o1: "score_batch default_config (\<lambda>i. 0) batch_sample = Inr out" ..
  have o: "length out = length batch_sample
      \<and> mset (map id_f out) = mset (map id_f batch_sample)
      \<and> map work_order out = map (\<lambda>n. Some (int n)) [1..<Suc (length batch_sample)]
      \<and> distinct (map work_order out)
      \<and> set (map work_order out) = (\<lambda>n. Some (int n)) ` {1..length batch_sample}"
    using batch_permutation [of default_config "\<lambda>i. 0" batch_sample out, THEN conjunct1] o1
    by (rule mp)
  from o have o2: "length out = length batch_sample" by (elim conjE)
  from o have o3: "mset (map id_f out) = mset (map id_f batch_sample)" by (elim conjE)
  from o have o4: "map work_order out
      = map (\<lambda>n. Some (int n)) [1..<Suc (length batch_sample)]" by (elim conjE)
  obtain out' where
    e: "score_batch default_config (\<lambda>i. 0) batch_sample = Inr out'
     \<and> map id_f out'
          = [''CVE-2024-0001'', ''CVE-2014-0002'', ''CVE-2025-0003'', ''CVE-2025-0003'']
     \<and> map risk_score out' = [100, 70, 35, 35]
     \<and> map risk_level out' = [''CRITICAL'', ''HIGH'', ''LOW'', ''LOW'']
     \<and> map work_order out' = [Some 1, Some 2, Some 3, Some 4]"
    using ev_batch ..
  then have "score_batch default_config (\<lambda>i. 0) batch_sample = Inr out'" by (rule conjunct1)
  with o1 have same: "out' = out" by (simp only: sum.inject)
  from e have e2: "map id_f out'
      = [''CVE-2024-0001'', ''CVE-2014-0002'', ''CVE-2025-0003'', ''CVE-2025-0003'']"
    by (elim conjE)
  from e have e5: "map work_order out' = [Some 1, Some 2, Some 3, Some 4]" by (elim conjE)
  have la: "list_all (\<lambda>item. FindingIn_valid item \<and> bonus_convertible default_config item)
      batch_sample"
    using v by (simp only: list_all_iff)
  have "score_batch default_config (\<lambda>i. 0) batch_sample = Inr out
        \<and> length out = length batch_sample
        \<and> mset (map id_f out) = mset (map id_f batch_sample)
        \<and> map work_order out = map (\<lambda>n. Some (int n)) [1..<Suc (length batch_sample)]
        \<and> map id_f out
            = [''CVE-2024-0001'', ''CVE-2014-0002'', ''CVE-2025-0003'', ''CVE-2025-0003'']
        \<and> map work_order out = [Some 1, Some 2, Some 3, Some 4]"
    using o1 o2 o3 o4 e2 [unfolded same] e5 [unfolded same] by (intro conjI)
  then have "\<exists>out. score_batch default_config (\<lambda>i. 0) batch_sample = Inr out
        \<and> length out = length batch_sample
        \<and> mset (map id_f out) = mset (map id_f batch_sample)
        \<and> map work_order out = map (\<lambda>n. Some (int n)) [1..<Suc (length batch_sample)]
        \<and> map id_f out
            = [''CVE-2024-0001'', ''CVE-2014-0002'', ''CVE-2025-0003'', ''CVE-2025-0003'']
        \<and> map work_order out = [Some 1, Some 2, Some 3, Some 4]" ..
  with la show ?thesis by (rule conjI)
qed



end
